theory Spec2Isabelle
  imports Complex_Main "HOL-Library.Word"
begin

unbundle bit_operations_syntax

chapter \<open>The onion-routing relay core: arena allocator and circuit-build-time estimator\<close>

text \<open>
  This theory embeds two modules of the relay core in HOL and proves properties of them:
  \<^item> the arena allocator \<^verbatim>\<open>memarea.c\<close> (the build with memory sentinels, which is the
    default one), and
  \<^item> the circuit-build-time estimator \<^verbatim>\<open>circuitstats.c\<close>.

  Conventions. A C function that can stop the program (a failed \<^verbatim>\<open>tor_assert\<close>, a
  dereference of \<^verbatim>\<open>NULL\<close>, an array access out of bounds) returns a value of
  \<open>failure + 'a\<close>, with \<open>Inl\<close> for the stop. Mutation is explicit state passing.
  Unsigned machine integers are words; C \<^verbatim>\<open>int\<close> values whose range is not at stake are
  \<open>int\<close>. Log output is not modelled.
\<close>

section \<open>Definitions\<close>

subsection \<open>memarea.c\<close>

text \<open>
  The model is the 64-bit build: \<^verbatim>\<open>SIZEOF_VOID_P\<close> is 8, so \<^verbatim>\<open>MEMAREA_ALIGN\<close> is 8 and
  \<^verbatim>\<open>MEMAREA_ALIGN_MASK\<close> is 7; pointers and \<^verbatim>\<open>size_t\<close> are 64-bit words and pointer
  arithmetic wraps as \<^verbatim>\<open>uintptr_t\<close> arithmetic does. The header of a chunk is three
  eight-byte fields, so \<^verbatim>\<open>CHUNK_HEADER_SIZE\<close>, the offset of \<^verbatim>\<open>U_MEM\<close>, is 24.
\<close>

type_synonym addr = "64 word"
type_synonym size_t = "64 word"

datatype failure = Assertion_Failed | Null_Dereference | Out_Of_Bounds

definition MEMAREA_ALIGN_MASK :: addr where
  "MEMAREA_ALIGN_MASK = 7"

definition SENTINEL_VAL :: "32 word" where
  "SENTINEL_VAL = 0x90806622"

definition SENTINEL_LEN :: size_t where
  "SENTINEL_LEN = 4"

definition CHUNK_HEADER_SIZE :: size_t where
  "CHUNK_HEADER_SIZE = 24"

definition CHUNK_SIZE :: size_t where
  "CHUNK_SIZE = 4096"

text \<open>\<^verbatim>\<open>x = (x+MEMAREA_ALIGN_MASK) & ~MEMAREA_ALIGN_MASK\<close>\<close>

definition realign_pointer :: "addr \<Rightarrow> addr" where
  "realign_pointer x = (x + MEMAREA_ALIGN_MASK) AND NOT MEMAREA_ALIGN_MASK"

text \<open>
  A chunk. \<open>chunk_addr\<close> is the address of the struct itself, that is, what
  \<^verbatim>\<open>tor_malloc\<close> returned for it; \<open>sentinel\<close> is the content of the four bytes at
  \<^verbatim>\<open>U_MEM[mem_size]\<close>, which \<^verbatim>\<open>SET_SENTINEL\<close> writes and \<^verbatim>\<open>CHECK_SENTINEL\<close> reads.
  The field \<^verbatim>\<open>next_chunk\<close> is the tail of the list the chunk stands in: an area
  (\<^verbatim>\<open>area->first\<close> and the chunks linked from it) is the list of its chunks in link order.
\<close>

record memarea_chunk_t =
  chunk_addr :: addr
  mem_size :: size_t
  next_mem :: addr
  sentinel :: "32 word"

definition U_MEM :: "memarea_chunk_t \<Rightarrow> addr" where
  "U_MEM c = chunk_addr c + CHUNK_HEADER_SIZE"

type_synonym memarea_t = "memarea_chunk_t list"

text \<open>
  \<^verbatim>\<open>alloc_chunk(sz)\<close>. The allocator of the C library is an input: \<open>base\<close> is the address
  that \<^verbatim>\<open>tor_malloc(chunk_size)\<close> returns (it never returns \<^verbatim>\<open>NULL\<close>). The constant
  \<^verbatim>\<open>SIZE_T_CEILING\<close> comes from a header outside this module and is the parameter
  \<open>size_ceiling\<close>.
\<close>

definition alloc_chunk :: "size_t \<Rightarrow> size_t \<Rightarrow> addr \<Rightarrow> failure + memarea_chunk_t" where
  "alloc_chunk size_ceiling sz base =
     (if \<not> sz < size_ceiling then Inl Assertion_Failed
      else
        let chunk_size = (if sz < CHUNK_SIZE then CHUNK_SIZE else sz) + SENTINEL_LEN;
            res = \<lparr> chunk_addr = base,
                    mem_size = chunk_size - CHUNK_HEADER_SIZE - SENTINEL_LEN,
                    next_mem = base + CHUNK_HEADER_SIZE,
                    sentinel = SENTINEL_VAL \<rparr>
        in if next_mem res + mem_size res + SENTINEL_LEN \<noteq> base + chunk_size
           then Inl Assertion_Failed
           else if realign_pointer (next_mem res) \<noteq> next_mem res
           then Inl Assertion_Failed
           else Inr res)"

definition memarea_new :: "size_t \<Rightarrow> addr \<Rightarrow> failure + memarea_t" where
  "memarea_new size_ceiling base =
     (case alloc_chunk size_ceiling CHUNK_SIZE base of
        Inl e \<Rightarrow> Inl e
      | Inr c \<Rightarrow> Inr [c])"

text \<open>\<^verbatim>\<open>memarea_chunk_free_unchecked\<close>: the result is the address handed to \<^verbatim>\<open>tor_free\<close>.\<close>

definition memarea_chunk_free_unchecked :: "memarea_chunk_t \<Rightarrow> failure + addr" where
  "memarea_chunk_free_unchecked chunk =
     (if sentinel chunk \<noteq> SENTINEL_VAL then Inl Assertion_Failed
      else Inr (chunk_addr chunk))"

text \<open>The loop of \<^verbatim>\<open>memarea_clear\<close> over the chunks after the first.\<close>

fun free_chunks :: "memarea_chunk_t list \<Rightarrow> failure + addr list" where
  "free_chunks [] = Inr []"
| "free_chunks (chunk # nxt) =
     (case memarea_chunk_free_unchecked chunk of
        Inl e \<Rightarrow> Inl e
      | Inr a \<Rightarrow>
          (case free_chunks nxt of
             Inl e \<Rightarrow> Inl e
           | Inr fs \<Rightarrow> Inr (a # fs)))"

text \<open>
  \<^verbatim>\<open>memarea_clear\<close> returns the area and the addresses it freed, in the order of the
  calls of \<^verbatim>\<open>tor_free\<close>.
\<close>

definition memarea_clear :: "memarea_t \<Rightarrow> failure + (memarea_t \<times> addr list)" where
  "memarea_clear area =
     (case area of
        [] \<Rightarrow> Inl Null_Dereference
      | first # rest \<Rightarrow>
          (case free_chunks rest of
             Inl e \<Rightarrow> Inl e
           | Inr freed \<Rightarrow> Inr ([first\<lparr>next_mem := U_MEM first\<rparr>], freed)))"

fun memarea_owns_ptr :: "memarea_t \<Rightarrow> addr \<Rightarrow> bool" where
  "memarea_owns_ptr [] p = False"
| "memarea_owns_ptr (chunk # nxt) p =
     (if U_MEM chunk \<le> p \<and> p < next_mem chunk then True
      else memarea_owns_ptr nxt p)"

text \<open>
  The last statements of \<^verbatim>\<open>memarea_alloc\<close>, which take the result from \<open>chunk\<close>:
  \<^verbatim>\<open>result = chunk->next_mem; chunk->next_mem = realign_pointer(chunk->next_mem + sz)\<close>.
\<close>

definition carve :: "memarea_chunk_t \<Rightarrow> size_t \<Rightarrow> memarea_chunk_t \<times> addr" where
  "carve chunk sz =
     (chunk\<lparr>next_mem := realign_pointer (next_mem chunk + sz)\<rparr>, next_mem chunk)"

text \<open>
  \<^verbatim>\<open>memarea_alloc(area, sz)\<close>; \<open>base\<close> is what \<^verbatim>\<open>tor_malloc\<close> returns if the call
  reaches \<^verbatim>\<open>alloc_chunk\<close>.
\<close>

definition memarea_alloc ::
  "size_t \<Rightarrow> memarea_t \<Rightarrow> size_t \<Rightarrow> addr \<Rightarrow> failure + (memarea_t \<times> addr)" where
  "memarea_alloc size_ceiling area sz0 base =
     (case area of
        [] \<Rightarrow> Inl Assertion_Failed
      | chunk # rest \<Rightarrow>
          if sentinel chunk \<noteq> SENTINEL_VAL then Inl Assertion_Failed
          else if \<not> sz0 < size_ceiling then Inl Assertion_Failed
          else
            let sz = (if sz0 = 0 then 1 else sz0) in
            if \<not> next_mem chunk \<le> U_MEM chunk + mem_size chunk then Inl Assertion_Failed
            else
              let space_remaining = (U_MEM chunk + mem_size chunk) - next_mem chunk in
              if sz > space_remaining then
                if sz + CHUNK_HEADER_SIZE \<ge> CHUNK_SIZE then
                  (case alloc_chunk size_ceiling (sz + CHUNK_HEADER_SIZE) base of
                     Inl e \<Rightarrow> Inl e
                   | Inr new_chunk \<Rightarrow>
                       if \<not> mem_size new_chunk \<ge> sz then Inl Assertion_Failed
                       else
                         let (c', result) = carve new_chunk sz
                         in Inr (chunk # c' # rest, result))
                else
                  (case alloc_chunk size_ceiling CHUNK_SIZE base of
                     Inl e \<Rightarrow> Inl e
                   | Inr new_chunk \<Rightarrow>
                       if \<not> mem_size new_chunk \<ge> sz then Inl Assertion_Failed
                       else
                         let (c', result) = carve new_chunk sz
                         in Inr (c' # chunk # rest, result))
              else
                let (c', result) = carve chunk sz
                in Inr (c' # rest, result))"

text \<open>
  Predicates of the proofs. A pointer is aligned when its low three bits are zero. A chunk
  is in order when its sentinel is intact, its block starts aligned and ends at least eight
  bytes below the top of the address space, and \<open>next_mem\<close> is aligned and lies between
  \<^verbatim>\<open>U_MEM\<close> and the end of the memory rounded up. An area is in order when all its chunks
  are, and the first chunk, the only one \<^verbatim>\<open>memarea_alloc\<close> carves from, has the standard
  size and \<open>next_mem\<close> within its memory.
\<close>

definition aligned :: "addr \<Rightarrow> bool" where
  "aligned p = (p AND MEMAREA_ALIGN_MASK = 0)"

definition chunk_ok :: "memarea_chunk_t \<Rightarrow> bool" where
  "chunk_ok c =
     (sentinel c = SENTINEL_VAL \<and> aligned (chunk_addr c) \<and>
      unat (chunk_addr c) + unat CHUNK_HEADER_SIZE + unat (mem_size c) + 8 \<le> 18446744073709551616 \<and>
      U_MEM c \<le> next_mem c \<and> aligned (next_mem c) \<and>
      unat (next_mem c) \<le> unat (U_MEM c) + unat (mem_size c) + 7)"

definition memarea_ok :: "memarea_t \<Rightarrow> bool" where
  "memarea_ok area =
     (case area of
        [] \<Rightarrow> False
      | first # rest \<Rightarrow>
          list_all chunk_ok area \<and>
          mem_size first = CHUNK_SIZE - CHUNK_HEADER_SIZE \<and>
          next_mem first \<le> U_MEM first + mem_size first)"

text \<open>The \<open>n\<close> bytes at \<open>p\<close> lie in the memory of chunk \<open>c\<close>.\<close>

definition in_chunk :: "memarea_chunk_t \<Rightarrow> addr \<Rightarrow> size_t \<Rightarrow> bool" where
  "in_chunk c p n =
     (unat (U_MEM c) \<le> unat p \<and> unat p + unat n \<le> unat (U_MEM c) + unat (mem_size c))"

definition served :: "memarea_t \<Rightarrow> addr \<Rightarrow> size_t \<Rightarrow> bool" where
  "served area p n =
     (aligned p \<and> memarea_owns_ptr area p \<and> list_ex (\<lambda>c. in_chunk c p n) area \<and>
      memarea_ok area)"

subsection \<open>circuitstats.c: constants, parameters and state\<close>

text \<open>
  \<^verbatim>\<open>build_time_t\<close> is \<^verbatim>\<open>uint32_t\<close>. The constants of \<^verbatim>\<open>circuitstats.h\<close>, which is
  outside the module, are parameters of the model, gathered in a record; every theorem
  states what it needs of them.
\<close>

type_synonym build_time_t = "32 word"

record cbt_constants =
  CBT_NCIRCUITS_TO_OBSERVE :: nat
  CBT_BIN_WIDTH :: build_time_t
  CBT_BUILD_TIME_MAX :: build_time_t
  CBT_BUILD_ABANDONED :: build_time_t

definition INT32_MAX :: int where
  "INT32_MAX = 2147483647"

text \<open>\<^verbatim>\<open>#define CBT_BIN_TO_MS(bin) ((bin)*CBT_BIN_WIDTH + (CBT_BIN_WIDTH/2))\<close>\<close>

definition CBT_BIN_TO_MS :: "cbt_constants \<Rightarrow> build_time_t \<Rightarrow> build_time_t" where
  "CBT_BIN_TO_MS k bin = bin * CBT_BIN_WIDTH k + CBT_BIN_WIDTH k div 2"

text \<open>
  What the module reads from its surroundings: the \<^verbatim>\<open>unit_tests\<close> flag, the options
  \<^verbatim>\<open>LearnCircuitBuildTimeout\<close> and \<^verbatim>\<open>CircuitBuildTimeout\<close>, the answers of
  \<^verbatim>\<open>authdir_mode\<close>, \<^verbatim>\<open>did_last_state_file_write_fail\<close> and
  \<^verbatim>\<open>hs_service_allow_non_anonymous_connection\<close>, and, for every consensus parameter, the
  value that \<^verbatim>\<open>networkstatus_get_param\<close> returns for it (already clamped to the bounds
  passed in the call, which are constants of the header). \<^verbatim>\<open>CircuitBuildTimeout\<close> is a C
  \<^verbatim>\<open>int\<close> that the module multiplies, so it is a 32-bit word, read as signed; the
  consensus parameters are only compared and converted.
\<close>

record cbt_env =
  unit_tests :: bool
  LearnCircuitBuildTimeout :: bool
  CircuitBuildTimeout :: "32 word"
  authdir_mode :: bool
  last_state_file_write_failed :: bool
  non_anonymous_mode :: bool
  cbtdisabled :: int
  cbtmaxtimeouts :: int
  cbtnummodes :: int
  cbtmincircs :: int
  cbtquantile :: int
  cbtclosequantile :: int
  cbtmintimeout :: int
  cbtinitialtimeout :: int
  cbtrecentcount :: int

text \<open>
  Values of type \<^verbatim>\<open>double\<close>: the finite ones, each given by the real number it stands
  for, the two infinities and NaN. The two zeros are one value here; where a zero divides,
  it is taken for \<open>+0\<close> (the only divisor that can be zero in this module is the sum \<^verbatim>\<open>a\<close>
  of \<^verbatim>\<open>circuit_build_times_update_alpha\<close>, and in IEEE 754 arithmetic a sum or difference
  that starts from \<open>+0\<close> is never \<open>-0\<close>).

  What an operation yields on finite operands depends on the platform and is a parameter
  of the model: \<open>round_to_double\<close> takes the exact result of an addition, subtraction,
  multiplication, division or conversion to the \<^verbatim>\<open>double\<close> that the operation delivers
  (an infinity when it overflows), and \<open>tor_mathlog\<close>, \<open>libm_pow\<close> and \<open>tor_lround\<close> are the
  functions of these names (\<^verbatim>\<open>pow\<close> for the second), which are not among the sources.
  Every theorem states what it needs of them. On the infinities and NaN the operations
  are those of IEEE 754.
\<close>

datatype double = Finite real | PlusInfinity | MinusInfinity | NaN

record double_arith =
  round_to_double :: "real \<Rightarrow> double"
  tor_mathlog :: "double \<Rightarrow> double"
  libm_pow :: "double \<Rightarrow> double \<Rightarrow> double"
  tor_lround :: "double \<Rightarrow> int"

text \<open>The comparisons \<^verbatim>\<open><\<close> and \<^verbatim>\<open><=\<close>; both are false when an operand is NaN.\<close>

fun double_less :: "double \<Rightarrow> double \<Rightarrow> bool" where
  "double_less (Finite a) (Finite b) = (a < b)"
| "double_less (Finite a) PlusInfinity = True"
| "double_less MinusInfinity (Finite b) = True"
| "double_less MinusInfinity PlusInfinity = True"
| "double_less _ _ = False"

fun double_le :: "double \<Rightarrow> double \<Rightarrow> bool" where
  "double_le (Finite a) (Finite b) = (a \<le> b)"
| "double_le (Finite a) PlusInfinity = True"
| "double_le MinusInfinity (Finite b) = True"
| "double_le MinusInfinity PlusInfinity = True"
| "double_le MinusInfinity MinusInfinity = True"
| "double_le PlusInfinity PlusInfinity = True"
| "double_le _ _ = False"

text \<open>The infinity with the sign of \<open>s\<close>; NaN when \<open>s\<close> is zero.\<close>

definition signed_infinity :: "real \<Rightarrow> double" where
  "signed_infinity s = (if s > 0 then PlusInfinity else if s < 0 then MinusInfinity else NaN)"

fun double_add :: "double_arith \<Rightarrow> double \<Rightarrow> double \<Rightarrow> double" where
  "double_add fp (Finite a) (Finite b) = round_to_double fp (a + b)"
| "double_add fp NaN y = NaN"
| "double_add fp x NaN = NaN"
| "double_add fp PlusInfinity MinusInfinity = NaN"
| "double_add fp MinusInfinity PlusInfinity = NaN"
| "double_add fp PlusInfinity y = PlusInfinity"
| "double_add fp MinusInfinity y = MinusInfinity"
| "double_add fp x PlusInfinity = PlusInfinity"
| "double_add fp x MinusInfinity = MinusInfinity"

fun double_sub :: "double_arith \<Rightarrow> double \<Rightarrow> double \<Rightarrow> double" where
  "double_sub fp (Finite a) (Finite b) = round_to_double fp (a - b)"
| "double_sub fp NaN y = NaN"
| "double_sub fp x NaN = NaN"
| "double_sub fp PlusInfinity PlusInfinity = NaN"
| "double_sub fp MinusInfinity MinusInfinity = NaN"
| "double_sub fp PlusInfinity y = PlusInfinity"
| "double_sub fp MinusInfinity y = MinusInfinity"
| "double_sub fp x PlusInfinity = MinusInfinity"
| "double_sub fp x MinusInfinity = PlusInfinity"

fun double_mul :: "double_arith \<Rightarrow> double \<Rightarrow> double \<Rightarrow> double" where
  "double_mul fp (Finite a) (Finite b) = round_to_double fp (a * b)"
| "double_mul fp NaN y = NaN"
| "double_mul fp x NaN = NaN"
| "double_mul fp PlusInfinity (Finite b) = signed_infinity b"
| "double_mul fp MinusInfinity (Finite b) = signed_infinity (- b)"
| "double_mul fp (Finite a) PlusInfinity = signed_infinity a"
| "double_mul fp (Finite a) MinusInfinity = signed_infinity (- a)"
| "double_mul fp PlusInfinity PlusInfinity = PlusInfinity"
| "double_mul fp MinusInfinity MinusInfinity = PlusInfinity"
| "double_mul fp PlusInfinity MinusInfinity = MinusInfinity"
| "double_mul fp MinusInfinity PlusInfinity = MinusInfinity"

fun double_div :: "double_arith \<Rightarrow> double \<Rightarrow> double \<Rightarrow> double" where
  "double_div fp (Finite a) (Finite b) =
     (if b \<noteq> 0 then round_to_double fp (a / b) else signed_infinity a)"
| "double_div fp NaN y = NaN"
| "double_div fp x NaN = NaN"
| "double_div fp (Finite a) PlusInfinity = Finite 0"
| "double_div fp (Finite a) MinusInfinity = Finite 0"
| "double_div fp PlusInfinity (Finite b) = (if b \<ge> 0 then PlusInfinity else MinusInfinity)"
| "double_div fp MinusInfinity (Finite b) = (if b \<ge> 0 then MinusInfinity else PlusInfinity)"
| "double_div fp x y = NaN"

text \<open>The conversion of an \<^verbatim>\<open>int32_t\<close> or \<^verbatim>\<open>uint32_t\<close> to \<^verbatim>\<open>double\<close>, which is exact.\<close>

definition double_of_int :: "int \<Rightarrow> double" where
  "double_of_int i = Finite (real_of_int i)"

record network_liveness_t =
  nonlive_timeouts :: int
  timeouts_after_firsthop :: "8 word list option"
  num_recent_circs :: int
  after_firsthop_idx :: int

text \<open>
  \<^verbatim>\<open>circuit_build_times_t\<close>. The array \<^verbatim>\<open>circuit_build_times\<close> is a list, which has
  \<^verbatim>\<open>CBT_NCIRCUITS_TO_OBSERVE\<close> elements in every state in order. The time stamps
  \<^verbatim>\<open>last_circ_at\<close> and \<^verbatim>\<open>network_last_live\<close> play no part in the functions below and are
  left out.
\<close>

record circuit_build_times_t =
  circuit_build_times :: "build_time_t list"
  build_times_idx :: int
  total_build_times :: int
  liveness :: network_liveness_t
  have_computed_timeout :: int
  Xm :: build_time_t
  alpha :: double
  timeout_ms :: double
  close_ms :: double
  num_circ_succeeded :: "32 word"
  num_circ_timeouts :: "32 word"
  num_circ_closed :: "32 word"

subsection \<open>circuitstats.c: parameters\<close>

text \<open>\<^verbatim>\<open>circuit_build_times_disabled_\<close> (a name cannot end in an underscore here).\<close>

definition circuit_build_times_disabled_aux :: "cbt_env \<Rightarrow> bool \<Rightarrow> bool" where
  "circuit_build_times_disabled_aux env ignore_consensus =
     (if unit_tests env then False
      else
        let consensus_disabled = (if ignore_consensus then False else cbtdisabled env \<noteq> 0);
            config_disabled = (\<not> LearnCircuitBuildTimeout env);
            dirauth_disabled = authdir_mode env;
            state_disabled = last_state_file_write_failed env;
            single_onion_disabled = non_anonymous_mode env
        in consensus_disabled \<or> config_disabled \<or> dirauth_disabled \<or> state_disabled \<or>
           single_onion_disabled)"

definition circuit_build_times_disabled :: "cbt_env \<Rightarrow> bool" where
  "circuit_build_times_disabled env = circuit_build_times_disabled_aux env False"


definition circuit_build_times_default_num_xm_modes :: "cbt_env \<Rightarrow> int" where
  "circuit_build_times_default_num_xm_modes env = cbtnummodes env"

definition circuit_build_times_min_circs_to_observe :: "cbt_env \<Rightarrow> int" where
  "circuit_build_times_min_circs_to_observe env = cbtmincircs env"

definition circuit_build_times_enough_to_compute ::
  "cbt_env \<Rightarrow> circuit_build_times_t \<Rightarrow> bool" where
  "circuit_build_times_enough_to_compute env cbt =
     (total_build_times cbt \<ge> circuit_build_times_min_circs_to_observe env)"

text \<open>
  The two quantiles are \<^verbatim>\<open>num/100.0\<close> and \<^verbatim>\<open>param / 100.0\<close>, divisions of doubles. The lower
  bound of the second is \<^verbatim>\<open>(int)tor_lround(100*circuit_build_times_quantile_cutoff())\<close>; the
  cast keeps the low 32 bits of the \<^verbatim>\<open>long\<close>.
\<close>

definition circuit_build_times_quantile_cutoff :: "double_arith \<Rightarrow> cbt_env \<Rightarrow> double" where
  "circuit_build_times_quantile_cutoff fp env =
     double_div fp (double_of_int (cbtquantile env)) (Finite 100)"

definition circuit_build_times_close_quantile :: "double_arith \<Rightarrow> cbt_env \<Rightarrow> double" where
  "circuit_build_times_close_quantile fp env =
     (let min = sint (word_of_int
                  (tor_lround fp
                     (double_mul fp (Finite 100) (circuit_build_times_quantile_cutoff fp env)))
                  :: 32 word);
          param = cbtclosequantile env;
          param = (if param < min then min else param)
      in double_div fp (double_of_int param) (Finite 100))"

definition circuit_build_times_min_timeout :: "cbt_env \<Rightarrow> int" where
  "circuit_build_times_min_timeout env = cbtmintimeout env"

definition circuit_build_times_initial_timeout :: "cbt_env \<Rightarrow> int" where
  "circuit_build_times_initial_timeout env =
     (let min = circuit_build_times_min_timeout env;
          param = cbtinitialtimeout env
      in if param < min then min else param)"

definition circuit_build_times_recent_circuit_count :: "cbt_env \<Rightarrow> int" where
  "circuit_build_times_recent_circuit_count env = cbtrecentcount env"

text \<open>
  \<^verbatim>\<open>circuit_build_times_get_initial_timeout\<close>. The product
  \<^verbatim>\<open>options->CircuitBuildTimeout*1000\<close> is a product of two \<^verbatim>\<open>int\<close>s, converted to
  \<^verbatim>\<open>double\<close> afterwards. Above 2147483 seconds it overflows; the model takes the low
  32 bits of the product, read as signed, which is what the compiled code yields on the
  usual platforms (the C standard leaves the overflow undefined).
\<close>

definition circuit_build_times_get_initial_timeout :: "cbt_env \<Rightarrow> double" where
  "circuit_build_times_get_initial_timeout env =
     (if \<not> unit_tests env \<and> CircuitBuildTimeout env \<noteq> 0 then
        let timeout = double_of_int (sint (CircuitBuildTimeout env * 1000))
        in if \<not> circuit_build_times_disabled env \<and>
              double_less timeout (double_of_int (circuit_build_times_min_timeout env))
           then double_of_int (circuit_build_times_min_timeout env)
           else timeout
      else double_of_int (circuit_build_times_initial_timeout env))"

subsection \<open>circuitstats.c: the history\<close>

definition circuit_build_times_reset ::
  "cbt_constants \<Rightarrow> circuit_build_times_t \<Rightarrow> circuit_build_times_t" where
  "circuit_build_times_reset k cbt =
     cbt\<lparr> circuit_build_times := replicate (CBT_NCIRCUITS_TO_OBSERVE k) 0,
          total_build_times := 0,
          build_times_idx := 0,
          have_computed_timeout := 0,
          num_circ_succeeded := 0,
          num_circ_closed := 0,
          num_circ_timeouts := 0 \<rparr>"

text \<open>
  \<^verbatim>\<open>circuit_build_times_init\<close>: the \<^verbatim>\<open>memset\<close> makes every field zero (a zero
  \<^verbatim>\<open>double\<close> is \<open>Finite 0\<close>), then the liveness array and the two timeouts are set.
\<close>

definition circuit_build_times_init ::
  "cbt_constants \<Rightarrow> cbt_env \<Rightarrow> circuit_build_times_t" where
  "circuit_build_times_init k env =
     \<lparr> circuit_build_times = replicate (CBT_NCIRCUITS_TO_OBSERVE k) 0,
       build_times_idx = 0,
       total_build_times = 0,
       liveness =
         (if \<not> circuit_build_times_disabled env then
            \<lparr> nonlive_timeouts = 0,
              timeouts_after_firsthop =
                Some (replicate (nat (circuit_build_times_recent_circuit_count env)) 0),
              num_recent_circs = circuit_build_times_recent_circuit_count env,
              after_firsthop_idx = 0 \<rparr>
          else
            \<lparr> nonlive_timeouts = 0,
              timeouts_after_firsthop = None,
              num_recent_circs = 0,
              after_firsthop_idx = 0 \<rparr>),
       have_computed_timeout = 0,
       Xm = 0,
       alpha = Finite 0,
       timeout_ms = circuit_build_times_get_initial_timeout env,
       close_ms = circuit_build_times_get_initial_timeout env,
       num_circ_succeeded = 0,
       num_circ_timeouts = 0,
       num_circ_closed = 0 \<rparr>"

text \<open>
  \<^verbatim>\<open>circuit_build_times_add_time\<close> returns the state and the C return value. The store
  \<^verbatim>\<open>cbt->circuit_build_times[cbt->build_times_idx] = btime\<close> is outside the array when the
  index is not below the array's length; the model stops there. Marking the state file
  dirty every \<^verbatim>\<open>CBT_SAVE_STATE_EVERY\<close> samples touches no field of the estimator.
\<close>

definition circuit_build_times_add_time ::
  "cbt_constants \<Rightarrow> circuit_build_times_t \<Rightarrow> build_time_t \<Rightarrow>
     failure + (circuit_build_times_t \<times> int)" where
  "circuit_build_times_add_time k cbt btime =
     (if btime \<le> 0 \<or> btime > CBT_BUILD_TIME_MAX k then Inr (cbt, -1)
      else if build_times_idx cbt < 0 \<or>
              build_times_idx cbt \<ge> int (length (circuit_build_times cbt))
      then Inl Out_Of_Bounds
      else
        let cbt = cbt\<lparr> circuit_build_times :=
                         (circuit_build_times cbt)[nat (build_times_idx cbt) := btime] \<rparr>;
            cbt = cbt\<lparr> build_times_idx :=
                         (build_times_idx cbt + 1) mod int (CBT_NCIRCUITS_TO_OBSERVE k) \<rparr>;
            cbt = (if total_build_times cbt < int (CBT_NCIRCUITS_TO_OBSERVE k)
                   then cbt\<lparr> total_build_times := total_build_times cbt + 1 \<rparr>
                   else cbt)
        in Inr (cbt, 0))"

text \<open>The loop of \<^verbatim>\<open>circuit_build_times_max\<close> runs over the array from index 0.\<close>

definition circuit_build_times_max ::
  "cbt_constants \<Rightarrow> circuit_build_times_t \<Rightarrow> build_time_t" where
  "circuit_build_times_max k cbt =
     fold (\<lambda>x max_build_time.
             if x > max_build_time \<and> x \<noteq> CBT_BUILD_ABANDONED k then x else max_build_time)
          (circuit_build_times cbt) 0"

text \<open>
  \<^verbatim>\<open>circuit_build_times_create_histogram\<close>: the result is the array of \<^verbatim>\<open>*nbins\<close>
  counters. Every index \<^verbatim>\<open>c\<close> it increments is below \<^verbatim>\<open>*nbins\<close> (lemma
  \<open>histogram_bin_in_range\<close>), so the list update is the array store.
\<close>

definition circuit_build_times_create_histogram ::
  "cbt_constants \<Rightarrow> circuit_build_times_t \<Rightarrow> 32 word list" where
  "circuit_build_times_create_histogram k cbt =
     (let max_build_time = circuit_build_times_max k cbt;
          nbins = 1 + max_build_time div CBT_BIN_WIDTH k
      in fold (\<lambda>x histogram.
                 if x = 0 \<or> x = CBT_BUILD_ABANDONED k then histogram
                 else
                   let c = unat (x div CBT_BIN_WIDTH k)
                   in histogram[c := histogram ! c + 1])
              (circuit_build_times cbt) (replicate (unat nbins) 0))"

text \<open>
  The inner loop of \<^verbatim>\<open>circuit_build_times_get_xm\<close>: the index of the first largest
  counter, starting from \<^verbatim>\<open>nth_max_bin[n] = 0\<close>.
\<close>

definition nth_max_bin :: "32 word list \<Rightarrow> nat" where
  "nth_max_bin histogram =
     fold (\<lambda>i b. if histogram ! i > histogram ! b then i else b) [0..<length histogram] 0"

text \<open>
  The outer loop, \<open>n\<close> rounds of it. The accumulators are \<^verbatim>\<open>xm_counts\<close> and
  \<^verbatim>\<open>xm_total\<close>; the first is an \<^verbatim>\<open>int32_t\<close> that is only added to, compared with zero and
  used as a divisor of an unsigned value, so it is a 32-bit word as well.
\<close>

fun xm_modes ::
  "cbt_constants \<Rightarrow> nat \<Rightarrow> 32 word list \<Rightarrow> 32 word \<times> build_time_t \<Rightarrow> 32 word \<times> build_time_t"
  where
  "xm_modes k 0 histogram (xm_counts, xm_total) = (xm_counts, xm_total)"
| "xm_modes k (Suc n) histogram (xm_counts, xm_total) =
     (let b = nth_max_bin histogram
      in xm_modes k n (histogram[b := 0])
           (xm_counts + histogram ! b,
            xm_total + CBT_BIN_TO_MS k (of_nat b) * (histogram ! b)))"

definition circuit_build_times_get_xm ::
  "cbt_constants \<Rightarrow> cbt_env \<Rightarrow> circuit_build_times_t \<Rightarrow> failure + build_time_t" where
  "circuit_build_times_get_xm k env cbt =
     (let num_modes = circuit_build_times_default_num_xm_modes env;
          histogram = circuit_build_times_create_histogram k cbt
      in if \<not> length histogram > 0 then Inl Assertion_Failed
         else if \<not> num_modes > 0 then Inl Assertion_Failed
         else
           let (xm_counts, xm_total) = xm_modes k (nat num_modes) histogram (0, 0)
           in if xm_counts = 0 then Inr 0
              else Inr (xm_total div xm_counts))"

subsection \<open>circuitstats.c: the Pareto fit and the timeout\<close>

text \<open>
  The loop of \<^verbatim>\<open>circuit_build_times_update_alpha\<close>, with the accumulators \<^verbatim>\<open>a\<close>,
  \<^verbatim>\<open>n\<close> and \<^verbatim>\<open>abandoned_count\<close>. The sum \<^verbatim>\<open>a\<close> is a \<^verbatim>\<open>double\<close>, and every \<^verbatim>\<open>a += ...\<close>
  is an addition of doubles, in the order of the array.
\<close>

definition alpha_loop ::
  "double_arith \<Rightarrow> cbt_constants \<Rightarrow> build_time_t \<Rightarrow> build_time_t list \<Rightarrow>
     double \<times> int \<times> int" where
  "alpha_loop fp k xm x =
     fold (\<lambda>xi (a, n, abandoned_count).
             if xi = 0 then (a, n, abandoned_count)
             else if xi < xm
             then (double_add fp a (tor_mathlog fp (double_of_int (uint xm))),
                   n + 1, abandoned_count)
             else if xi = CBT_BUILD_ABANDONED k then (a, n, abandoned_count + 1)
             else (double_add fp a (tor_mathlog fp (double_of_int (uint xi))),
                   n + 1, abandoned_count))
          x (Finite 0, 0, 0)"

text \<open>
  \<^verbatim>\<open>circuit_build_times_update_alpha\<close>; the failed \<^verbatim>\<open>tor_assert_nonfatal\<close> only logs.
  The last two statements are \<^verbatim>\<open>a -= n*tor_mathlog(cbt->Xm)\<close> and \<^verbatim>\<open>a = n/a\<close>.
\<close>

definition circuit_build_times_update_alpha ::
  "double_arith \<Rightarrow> cbt_constants \<Rightarrow> cbt_env \<Rightarrow> circuit_build_times_t \<Rightarrow>
     failure + (circuit_build_times_t \<times> int)" where
  "circuit_build_times_update_alpha fp k env cbt =
     (case circuit_build_times_get_xm k env cbt of
        Inl e \<Rightarrow> Inl e
      | Inr xm \<Rightarrow>
          let cbt = cbt\<lparr> Xm := xm \<rparr>
          in if Xm cbt = 0 then Inr (cbt, 0)
             else
               let (a, n, abandoned_count) =
                     alpha_loop fp k (Xm cbt) (circuit_build_times cbt);
                   a = double_sub fp a
                         (double_mul fp (double_of_int n)
                            (tor_mathlog fp (double_of_int (uint (Xm cbt)))));
                   a = double_div fp (double_of_int n) a
               in Inr (cbt\<lparr> alpha := a \<rparr>, 1))"

text \<open>
  \<^verbatim>\<open>circuit_build_times_calculate_timeout\<close>. A failed \<^verbatim>\<open>tor_assert\<close> ends the program.
\<close>

definition circuit_build_times_calculate_timeout ::
  "double_arith \<Rightarrow> circuit_build_times_t \<Rightarrow> double \<Rightarrow> failure + double" where
  "circuit_build_times_calculate_timeout fp cbt quantile =
     (if \<not> double_le (Finite 0) quantile then Inl Assertion_Failed
      else if \<not> double_less (Finite 0) (double_sub fp (Finite 1) quantile)
      then Inl Assertion_Failed
      else if \<not> Xm cbt > 0 then Inl Assertion_Failed
      else
        let ret = double_of_int INT32_MAX;
            ret = (if double_less (Finite 0) (alpha cbt) then
                     let p = libm_pow fp (double_sub fp (Finite 1) quantile)
                               (double_div fp (Finite 1) (alpha cbt))
                     in if double_less (Finite 0) p
                        then double_div fp (double_of_int (uint (Xm cbt))) p
                        else ret
                   else ret);
            ret = (if double_less (double_of_int INT32_MAX) ret
                   then double_of_int INT32_MAX else ret)
        in if \<not> double_less (Finite 0) ret then Inl Assertion_Failed else Inr ret)"

text \<open>
  \<^verbatim>\<open>circuit_build_times_set_timeout_worker\<close>. The product \<^verbatim>\<open>2*max_time\<close> is computed in
  \<^verbatim>\<open>build_time_t\<close>. \<^verbatim>\<open>MAX\<close>, a macro of a header that is not among the sources, is
  taken as \<^verbatim>\<open>((a)<(b)) ? (b) : (a)\<close>; neither operand is NaN there, so that the other way
  of writing it yields the same.
\<close>

definition circuit_build_times_set_timeout_worker ::
  "double_arith \<Rightarrow> cbt_constants \<Rightarrow> cbt_env \<Rightarrow> circuit_build_times_t \<Rightarrow>
     failure + (circuit_build_times_t \<times> int)" where
  "circuit_build_times_set_timeout_worker fp k env cbt =
     (if \<not> circuit_build_times_enough_to_compute env cbt then Inr (cbt, 0)
      else
        case circuit_build_times_update_alpha fp k env cbt of
          Inl e \<Rightarrow> Inl e
        | Inr (cbt, updated) \<Rightarrow>
            if updated = 0 then Inr (cbt, 0)
            else
              case circuit_build_times_calculate_timeout fp cbt
                     (circuit_build_times_quantile_cutoff fp env) of
                Inl e \<Rightarrow> Inl e
              | Inr t \<Rightarrow>
                  let cbt = cbt\<lparr> timeout_ms := t \<rparr>
                  in case circuit_build_times_calculate_timeout fp cbt
                            (circuit_build_times_close_quantile fp env) of
                       Inl e \<Rightarrow> Inl e
                     | Inr c \<Rightarrow>
                         let cbt = cbt\<lparr> close_ms := c \<rparr>;
                             max_time = circuit_build_times_max k cbt;
                             cbt = (if double_less (double_of_int (uint max_time))
                                         (timeout_ms cbt)
                                    then cbt\<lparr> timeout_ms := double_of_int (uint max_time) \<rparr>
                                    else cbt);
                             cbt = (if uint max_time < INT32_MAX div 2 \<and>
                                       double_less (double_of_int (uint (2 * max_time)))
                                         (close_ms cbt)
                                    then cbt\<lparr> close_ms :=
                                               double_of_int (uint (2 * max_time)) \<rparr>
                                    else cbt);
                             cbt = cbt\<lparr> close_ms :=
                                     (if double_less (close_ms cbt)
                                           (double_of_int
                                              (circuit_build_times_initial_timeout env))
                                      then double_of_int
                                             (circuit_build_times_initial_timeout env)
                                      else close_ms cbt) \<rparr>;
                             cbt = cbt\<lparr> have_computed_timeout := 1 \<rparr>
                         in Inr (cbt, 1))"

text \<open>
  \<^verbatim>\<open>circuit_build_times_set_timeout\<close>. The value \<^verbatim>\<open>prev_timeout\<close> and what follows the
  adjustment of the timeout in the source (the control event,
  \<^verbatim>\<open>circuit_build_times_timeout_rate\<close> and the three log branches) change no field.
\<close>

definition circuit_build_times_set_timeout ::
  "double_arith \<Rightarrow> cbt_constants \<Rightarrow> cbt_env \<Rightarrow> circuit_build_times_t \<Rightarrow>
     failure + circuit_build_times_t"
  where
  "circuit_build_times_set_timeout fp k env cbt =
     (if circuit_build_times_disabled env then Inr cbt
      else
        case circuit_build_times_set_timeout_worker fp k env cbt of
          Inl e \<Rightarrow> Inl e
        | Inr (cbt, computed) \<Rightarrow>
            if computed = 0 then Inr cbt
            else if double_less (timeout_ms cbt)
                      (double_of_int (circuit_build_times_min_timeout env)) then
              let cbt = cbt\<lparr> timeout_ms :=
                              double_of_int (circuit_build_times_min_timeout env) \<rparr>
              in if double_less (close_ms cbt) (timeout_ms cbt)
                 then Inr (cbt\<lparr> close_ms :=
                                double_of_int (circuit_build_times_initial_timeout env) \<rparr>)
                 else Inr cbt
            else Inr cbt)"

subsection \<open>circuitstats.c: the state file\<close>

text \<open>
  The three fields of \<^verbatim>\<open>or_state_t\<close> that the module uses. A line of
  \<^verbatim>\<open>BuildtimeHistogram\<close> is its key and its value; the value, which the source writes
  with \<^verbatim>\<open>"%d %d"\<close> and reads back by splitting at blanks and \<^verbatim>\<open>tor_parse_ulong\<close>, is
  the list of the numbers that its fields denote. \<^verbatim>\<open>%d\<close> prints its argument as a signed
  32-bit number. \<^verbatim>\<open>tor_parse_ulong(s, 10, min, max, &ok, NULL)\<close> is in the string library;
  its contract is that \<^verbatim>\<open>ok\<close> is set exactly when the number is within the bounds.
\<close>

record or_state_t =
  BuildtimeHistogram :: "(string \<times> int list) list"
  TotalBuildTimes :: int
  CircuitBuildAbandonedCount :: int

definition tor_parse_ulong :: "int \<Rightarrow> int \<Rightarrow> int \<Rightarrow> int option" where
  "tor_parse_ulong v lo hi = (if lo \<le> v \<and> v \<le> hi then Some v else None)"

definition circuit_build_times_update_state ::
  "cbt_constants \<Rightarrow> circuit_build_times_t \<Rightarrow> or_state_t \<Rightarrow> or_state_t" where
  "circuit_build_times_update_state k cbt state =
     (let histogram = circuit_build_times_create_histogram k cbt
      in state\<lparr>
           BuildtimeHistogram :=
             map (\<lambda>i. (''CircuitBuildTimeBin'',
                        [sint (CBT_BIN_TO_MS k (of_nat i)), sint (histogram ! i)]))
               (filter (\<lambda>i. histogram ! i \<noteq> 0) [0..<length histogram]),
           TotalBuildTimes := total_build_times cbt,
           CircuitBuildAbandonedCount :=
             int (length (filter (\<lambda>x. x = CBT_BUILD_ABANDONED k) (circuit_build_times cbt)))
         \<rparr>)"

text \<open>
  The Fisher-Yates loop \<^verbatim>\<open>while (n-- > 1)\<close>. The random source is an input: \<open>draw n\<close> is
  the result of \<^verbatim>\<open>crypto_rand_int(n + 1)\<close> in the round whose decremented counter is \<open>n\<close>
  (each value of the counter occurs once).
\<close>

fun shuffle_loop :: "(nat \<Rightarrow> nat) \<Rightarrow> nat \<Rightarrow> build_time_t list \<Rightarrow> build_time_t list" where
  "shuffle_loop draw 0 raw_times = raw_times"
| "shuffle_loop draw (Suc 0) raw_times = raw_times"
| "shuffle_loop draw (Suc (Suc m)) raw_times =
     (let n = Suc m;
          k = draw n;
          tmp = raw_times ! k
      in shuffle_loop draw n (raw_times[k := raw_times ! n, n := tmp]))"

text \<open>The loop of calls of \<^verbatim>\<open>circuit_build_times_add_time\<close>, whose results are dropped.\<close>

fun store_times ::
  "cbt_constants \<Rightarrow> circuit_build_times_t \<Rightarrow> build_time_t list \<Rightarrow>
     failure + circuit_build_times_t" where
  "store_times k cbt [] = Inr cbt"
| "store_times k cbt (t # ts) =
     (case circuit_build_times_add_time k cbt t of
        Inl e \<Rightarrow> Inl e
      | Inr (cbt', r) \<Rightarrow> store_times k cbt' ts)"

definition circuit_build_times_shuffle_and_store_array ::
  "cbt_constants \<Rightarrow> (nat \<Rightarrow> nat) \<Rightarrow> circuit_build_times_t \<Rightarrow> build_time_t list \<Rightarrow> nat \<Rightarrow>
     failure + circuit_build_times_t" where
  "circuit_build_times_shuffle_and_store_array k draw cbt raw_times num_times =
     (let n = (if int num_times > INT32_MAX - 1 then nat (INT32_MAX - 1) else num_times);
          raw_times = shuffle_loop draw n raw_times
      in store_times k cbt (take (min num_times (CBT_NCIRCUITS_TO_OBSERVE k)) raw_times))"

text \<open>
  The loop of \<^verbatim>\<open>circuit_build_times_parse_state\<close> over the lines. The list is the part
  of \<^verbatim>\<open>loaded_times\<close> written so far, so \<^verbatim>\<open>loaded_cnt\<close> is its length; the results are
  that list, the count of lines \<^verbatim>\<open>N\<close> and the flag \<^verbatim>\<open>err\<close>. The array has
  \<^verbatim>\<open>TotalBuildTimes\<close> elements, and a store beyond them stops the model.
\<close>

fun load_lines ::
  "cbt_constants \<Rightarrow> or_state_t \<Rightarrow> (string \<times> int list) list \<Rightarrow> build_time_t list \<Rightarrow> nat \<Rightarrow>
     failure + (build_time_t list \<times> nat \<times> bool)" where
  "load_lines k state [] loaded n = Inr (loaded, n, False)"
| "load_lines k state (line # rest) loaded n =
     (let args = snd line
      in if length args < 2 then Inr (loaded, n, True)
         else
           case tor_parse_ulong (args ! 0) 0 (uint (CBT_BUILD_TIME_MAX k)) of
             None \<Rightarrow> Inr (loaded, n, True)
           | Some ms \<Rightarrow>
               (case tor_parse_ulong (args ! 1) 0 4294967295 of
                  None \<Rightarrow> Inr (loaded, n, True)
                | Some count \<Rightarrow>
                    if (of_nat (length loaded) + word_of_int count
                          + word_of_int (CircuitBuildAbandonedCount state) :: 32 word)
                       > word_of_int (TotalBuildTimes state)
                    then Inr (loaded, n, False)
                    else if int (length loaded) + count > TotalBuildTimes state
                    then Inl Out_Of_Bounds
                    else load_lines k state rest
                           (loaded @ replicate (nat count) (word_of_int ms)) (n + 1)))"

definition circuit_build_times_parse_state ::
  "double_arith \<Rightarrow> cbt_constants \<Rightarrow> cbt_env \<Rightarrow> (nat \<Rightarrow> nat) \<Rightarrow> or_state_t \<Rightarrow>
     failure + (circuit_build_times_t \<times> int)" where
  "circuit_build_times_parse_state fp k env draw state =
     (let cbt = circuit_build_times_init k env
      in if circuit_build_times_disabled env then Inr (cbt, 0)
         else if TotalBuildTimes state < 0 then Inl Assertion_Failed
         else
           case load_lines k state (BuildtimeHistogram state) [] 0 of
             Inl e \<Rightarrow> Inl e
           | Inr (loaded, n, err) \<Rightarrow>
               if int (length loaded) + max 0 (CircuitBuildAbandonedCount state)
                    > TotalBuildTimes state
               then Inl Out_Of_Bounds
               else
                 let loaded_times =
                       loaded @ replicate (nat (CircuitBuildAbandonedCount state))
                                  (CBT_BUILD_ABANDONED k)
                 in if (of_nat (length loaded_times) :: 32 word)
                         \<noteq> word_of_int (TotalBuildTimes state)
                    then Inr (circuit_build_times_reset k cbt, -1)
                    else
                      case circuit_build_times_shuffle_and_store_array k draw cbt
                             (loaded_times @
                                replicate (nat (TotalBuildTimes state) - length loaded_times) 0)
                             (length loaded_times) of
                        Inl e \<Rightarrow> Inl e
                      | Inr cbt \<Rightarrow>
                          let tot_values =
                                int (length (takeWhile (\<lambda>x. x \<noteq> 0) (circuit_build_times cbt)))
                          in if total_build_times cbt \<noteq> tot_values \<or>
                                total_build_times cbt > int (CBT_NCIRCUITS_TO_OBSERVE k)
                             then Inr (circuit_build_times_reset k cbt, -1)
                             else
                               case circuit_build_times_set_timeout fp k env cbt of
                                 Inl e \<Rightarrow> Inl e
                               | Inr cbt \<Rightarrow> Inr (cbt, if err then -1 else 0))"

subsection \<open>circuitstats.c: network liveness and timeouts of single circuits\<close>








text \<open>
  The origin circuit, as far as this module looks at it: its purpose, the flag
  \<^verbatim>\<open>relaxed_timeout\<close>, whether \<^verbatim>\<open>circ->cpath\<close> is set and its first hop is in
  \<^verbatim>\<open>CPATH_STATE_OPEN\<close>, and the number that \<^verbatim>\<open>circuit_get_cpath_opened_len\<close> returns.
  Of the purposes only \<^verbatim>\<open>CIRCUIT_PURPOSE_C_MEASURE_TIMEOUT\<close> is named here.

  The functions of other modules that this one calls on a circuit are recorded as a list
  of calls. \<^verbatim>\<open>circuit_change_purpose\<close> also assigns the purpose, which the caller reads
  again. \<^verbatim>\<open>circuit_mark_for_close\<close>, the call that closes a circuit, is in the
  vocabulary so that its absence can be stated.
\<close>

datatype circuit_purpose = CIRCUIT_PURPOSE_C_MEASURE_TIMEOUT | Other_Purpose nat

datatype circuit_status_event = CIRC_EVENT_FAILED | Other_Event nat

datatype end_circ_reason = END_CIRC_REASON_TIMEOUT | Other_Reason nat

datatype circuit_call =
    Circuit_event_status circuit_status_event end_circ_reason
  | Circuit_change_purpose circuit_purpose
  | Circuit_mark_for_close end_circ_reason






subsection \<open>Concrete constants and parameters\<close>

text \<open>
  Values at which the theorems below are instantiated: a history of four slots, for short
  examples, and a history of a thousand slots with bins of ten milliseconds, the largest
  \<^verbatim>\<open>int32_t\<close> as \<^verbatim>\<open>CBT_BUILD_TIME_MAX\<close> and one less as \<^verbatim>\<open>CBT_BUILD_ABANDONED\<close>; and a
  client that learns its timeout, with the parameters at 80 and 99 percent for the two
  quantiles, ten modes, a minimum of 100 circuits, a minimum timeout of 10 ms and an
  initial timeout of 60 s.
\<close>

definition small_constants :: cbt_constants where
  "small_constants =
     \<lparr> CBT_NCIRCUITS_TO_OBSERVE = 4, CBT_BIN_WIDTH = 10,
       CBT_BUILD_TIME_MAX = 0x7FFFFFFF, CBT_BUILD_ABANDONED = 0x7FFFFFFE \<rparr>"

definition wide_constants :: cbt_constants where
  "wide_constants =
     \<lparr> CBT_NCIRCUITS_TO_OBSERVE = 1000, CBT_BIN_WIDTH = 10,
       CBT_BUILD_TIME_MAX = 0x7FFFFFFF, CBT_BUILD_ABANDONED = 0x7FFFFFFE \<rparr>"

definition learning_env :: cbt_env where
  "learning_env =
     \<lparr> unit_tests = False, LearnCircuitBuildTimeout = True, CircuitBuildTimeout = 0,
       authdir_mode = False, last_state_file_write_failed = False,
       non_anonymous_mode = False, cbtdisabled = 0, cbtmaxtimeouts = 18, cbtnummodes = 10,
       cbtmincircs = 100, cbtquantile = 80, cbtclosequantile = 99, cbtmintimeout = 10,
       cbtinitialtimeout = 60000, cbtrecentcount = 20 \<rparr>"






subsection \<open>Predicates of the proofs about the history\<close>

text \<open>
  The state after storing the samples \<open>xs\<close>, all of them accepted, into an empty history:
  sample number \<open>j\<close> (from zero) of the last \<open>N\<close> sits in slot \<open>j mod N\<close>.
\<close>

definition holds_window ::
  "cbt_constants \<Rightarrow> build_time_t list \<Rightarrow> circuit_build_times_t \<Rightarrow> bool" where
  "holds_window k xs cbt =
     (length (circuit_build_times cbt) = CBT_NCIRCUITS_TO_OBSERVE k \<and>
      build_times_idx cbt = int (length xs mod CBT_NCIRCUITS_TO_OBSERVE k) \<and>
      total_build_times cbt = int (min (length xs) (CBT_NCIRCUITS_TO_OBSERVE k)) \<and>
      (\<forall>j<length xs. length xs \<le> j + CBT_NCIRCUITS_TO_OBSERVE k \<longrightarrow>
         circuit_build_times cbt ! (j mod CBT_NCIRCUITS_TO_OBSERVE k) = xs ! j) \<and>
      (\<forall>i<CBT_NCIRCUITS_TO_OBSERVE k. length xs \<le> i \<longrightarrow> circuit_build_times cbt ! i = 0))"








section \<open>The arena allocator\<close>

subsection \<open>Alignment arithmetic\<close>

lemma mask3: "MEMAREA_ALIGN_MASK = mask 3"
  by (simp add: MEMAREA_ALIGN_MASK_def mask_eq_exp_minus_1)

lemma and_not_mask_diff: "(y::addr) AND NOT (mask n) = y - take_bit n y"
proof -
  have "y - take_bit n y = y AND NOT (take_bit n y)"
    by (rule disjunctive_diff) (simp add: bit_take_bit_iff)
  also have "\<dots> = y AND NOT (mask n)"
    by (rule bit_eqI) (auto simp add: bit_and_iff bit_not_iff bit_take_bit_iff bit_mask_iff)
  finally show ?thesis by simp
qed

lemma unat_and_not_mask3: "unat ((y::addr) AND NOT (mask 3)) = (unat y div 8) * 8"
proof -
  have le: "take_bit 3 y \<le> y"
    by (simp add: take_bit_eq_mask word_and_le2)
  have "unat (y - take_bit 3 y) = unat y - unat (take_bit 3 y)"
    using le by (rule unat_sub)
  also have "unat (take_bit 3 y) = unat y mod 8"
    by (simp add: unsigned_take_bit_eq) (simp add: take_bit_eq_mod)
  finally show ?thesis
    by (simp only: and_not_mask_diff minus_mod_eq_div_mult)
qed

lemma unat_realign:
  assumes "unat x + 7 < 18446744073709551616"
  shows "unat (realign_pointer x) = ((unat x + 7) div 8) * 8"
proof -
  have "unat (x + mask 3) = unat x + 7"
    using assms by (simp add: unat_word_ariths mask_eq_exp_minus_1)
  then show ?thesis
    by (simp only: realign_pointer_def mask3 unat_and_not_mask3)
qed

lemma aligned_iff: "aligned x = (unat x mod 8 = 0)"
proof -
  have "unat (take_bit 3 x) = unat x mod 8"
    by (simp add: unsigned_take_bit_eq) (simp add: take_bit_eq_mod)
  then have "unat (x AND mask 3) = unat x mod 8"
    by (simp only: take_bit_eq_mask)
  then show ?thesis
    unfolding aligned_def mask3
    by (metis unsigned_0 word_eq_iff_unsigned)
qed

lemma realign_aligned: "aligned (realign_pointer x)"
  unfolding aligned_def realign_pointer_def
  by (simp add: and.assoc)


lemma unat_U_MEM:
  "unat (chunk_addr c) + 24 < 18446744073709551616 \<Longrightarrow> unat (U_MEM c) = unat (chunk_addr c) + 24"
  by (simp add: U_MEM_def CHUNK_HEADER_SIZE_def unat_word_ariths)




lemma realign_id: 
  assumes "aligned x"
  shows "realign_pointer x = x"
proof -
  have m: "unat x mod 8 = 0" using assms by (simp add: aligned_iff)
  have "unat x < 18446744073709551616" using unsigned_less [of x] by simp
  with m have "unat x + 7 < 18446744073709551616" by presburger
  then have lt: "unat x + 7 < 18446744073709551616" .
  have "unat (realign_pointer x) = ((unat x + 7) div 8) * 8"
    using lt by (rule unat_realign)
  also have "\<dots> = unat x" using m by presburger
  finally show ?thesis by (simp add: word_unat_eq_iff)
qed

lemma alloc_chunk_ok:
  assumes "sz < size_ceiling" "aligned base"
    and "unat base + max 4096 (unat sz) + 8 \<le> 18446744073709551616"
  shows "\<exists>c. alloc_chunk size_ceiling sz base = Inr c \<and> chunk_ok c \<and> chunk_addr c = base \<and>
             next_mem c = U_MEM c \<and>
             unat (mem_size c) = max 4096 (unat sz) - 24"
proof -
  have b24: "unat (base + 24) = unat base + 24"
    using assms(3) by (simp add: unat_word_ariths)
  have al24: "aligned (base + 24)"
    using assms(2) b24 by (simp add: aligned_iff) presburger
  show ?thesis
  proof (cases "sz < 4096")
    case True
    then have "unat sz < 4096" by (simp add: word_less_nat_alt)
    then show ?thesis
      using True assms(1) al24 b24 assms(2,3)
      by (simp add: alloc_chunk_def Let_def CHUNK_SIZE_def SENTINEL_LEN_def CHUNK_HEADER_SIZE_def
        realign_id chunk_ok_def U_MEM_def)
  next
    case False
    then have ge: "4096 \<le> unat sz" by (simp add: word_less_nat_alt)
    then have "(24::size_t) \<le> sz" by (simp add: word_le_nat_alt)
    then have ms: "unat (sz - 24) = unat sz - 24" by (simp add: unat_sub)
    show ?thesis
      using False assms(1) al24 b24 assms(2,3) ms ge
      by (simp add: alloc_chunk_def Let_def CHUNK_SIZE_def SENTINEL_LEN_def CHUNK_HEADER_SIZE_def
        realign_id chunk_ok_def U_MEM_def)
  qed
qed



lemma roundup_gt: "0 < s \<Longrightarrow> (n::nat) < ((n + s + 7) div 8) * 8"
  by presburger

lemma roundup_le: 
  assumes "(n::nat) + s \<le> e"
  shows "((n + s + 7) div 8) * 8 \<le> e + 7"
proof -
  have "((n + s + 7) div 8) * 8 \<le> n + s + 7"
    by (rule div_times_less_eq_dividend)
  with assms show ?thesis by linarith
qed

lemma roundup_le_aligned:
  assumes "(n::nat) + s \<le> e" and "e mod 8 = 0"
  shows "((n + s + 7) div 8) * 8 \<le> e"
proof -
  obtain k where k: "e = 8 * k"
    using assms(2) by (auto simp add: mod_eq_0_iff_dvd elim: dvdE)
  have "n + s + 7 < (k + 1) * 8"
    using assms(1) k by simp
  then have "(n + s + 7) div 8 < k + 1"
    by (rule less_mult_imp_div_less)
  then show ?thesis using k by simp
qed

lemma unat_add_nowrap:
  "unat (a::addr) + unat b < 18446744073709551616 \<Longrightarrow> unat (a + b) = unat a + unat b"
  using unat_add_lem [of a b] by simp

lemma U_MEM_next_mem_update: "U_MEM (c\<lparr>next_mem := x\<rparr>) = U_MEM c"
  by (simp add: U_MEM_def)

lemma chunk_ok_unat:
  assumes "chunk_ok c"
  shows "unat (U_MEM c) = unat (chunk_addr c) + 24"
    and "unat (U_MEM c + mem_size c) = unat (U_MEM c) + unat (mem_size c)"
    and "unat (U_MEM c) + unat (mem_size c) + 8 \<le> 18446744073709551616"
proof -
  have b: "unat (chunk_addr c) + 24 + unat (mem_size c) + 8 \<le> 18446744073709551616"
    using assms by (simp add: chunk_ok_def CHUNK_HEADER_SIZE_def)
  have "unat (chunk_addr c) + unat (24::addr) < 18446744073709551616"
    using b by simp
  then have "unat (chunk_addr c + 24) = unat (chunk_addr c) + unat (24::addr)"
    by (rule unat_add_nowrap)
  then show u: "unat (U_MEM c) = unat (chunk_addr c) + 24"
    by (simp add: U_MEM_def CHUNK_HEADER_SIZE_def)
  have "unat (U_MEM c) + unat (mem_size c) < 18446744073709551616"
    using b u by simp
  then show "unat (U_MEM c + mem_size c) = unat (U_MEM c) + unat (mem_size c)"
    by (rule unat_add_nowrap)
  show "unat (U_MEM c) + unat (mem_size c) + 8 \<le> 18446744073709551616"
    using b u by simp
qed

lemma carve_ok:
  assumes ok: "chunk_ok c"
    and pos: "0 < unat sz"
    and fits: "unat (next_mem c) + unat sz \<le> unat (U_MEM c) + unat (mem_size c)"
  shows "chunk_ok (fst (carve c sz))"
    and "snd (carve c sz) = next_mem c"
    and "U_MEM (fst (carve c sz)) = U_MEM c"
    and "mem_size (fst (carve c sz)) = mem_size c"
    and "snd (carve c sz) < next_mem (fst (carve c sz))"
    and "unat (next_mem (fst (carve c sz))) = ((unat (next_mem c) + unat sz + 7) div 8) * 8"
proof -
  have e: "unat (U_MEM c) + unat (mem_size c) + 8 \<le> 18446744073709551616"
    using ok by (rule chunk_ok_unat)
  have "unat (next_mem c) + unat sz < 18446744073709551616"
    using e fits by linarith
  then have s: "unat (next_mem c + sz) = unat (next_mem c) + unat sz"
    by (rule unat_add_nowrap)
  have "unat (next_mem c + sz) + 7 < 18446744073709551616"
    using e fits s by linarith
  then have "unat (realign_pointer (next_mem c + sz)) = ((unat (next_mem c + sz) + 7) div 8) * 8"
    by (rule unat_realign)
  then have r: "unat (realign_pointer (next_mem c + sz)) = ((unat (next_mem c) + unat sz + 7) div 8) * 8"
    by (simp only: s)
  show "unat (next_mem (fst (carve c sz))) = ((unat (next_mem c) + unat sz + 7) div 8) * 8"
    using r by (simp add: carve_def)
  show "snd (carve c sz) = next_mem c" by (simp add: carve_def)
  show "U_MEM (fst (carve c sz)) = U_MEM c" by (simp add: carve_def U_MEM_def)
  show "mem_size (fst (carve c sz)) = mem_size c" by (simp add: carve_def)
  have lt: "unat (next_mem c) < ((unat (next_mem c) + unat sz + 7) div 8) * 8"
    using pos by (rule roundup_gt)
  show "snd (carve c sz) < next_mem (fst (carve c sz))"
    using lt by (simp add: carve_def word_less_nat_alt r)
  have le: "((unat (next_mem c) + unat sz + 7) div 8) * 8 \<le> unat (U_MEM c) + unat (mem_size c) + 7"
    using fits by (rule roundup_le)
  have "U_MEM c \<le> next_mem c" using ok by (simp add: chunk_ok_def)
  then have "unat (U_MEM c) \<le> unat (next_mem c)" by (simp add: word_le_nat_alt)
  with lt have ul: "unat (U_MEM c) \<le> ((unat (next_mem c) + unat sz + 7) div 8) * 8" by linarith
  have 1: "U_MEM c \<le> realign_pointer (next_mem c + sz)"
    using ul by (simp add: word_le_nat_alt r)
  have 2: "unat (realign_pointer (next_mem c + sz)) \<le> unat (U_MEM c) + unat (mem_size c) + 7"
    using le by (simp only: r)
  show "chunk_ok (fst (carve c sz))"
    using ok 1 2
    by (simp add: chunk_ok_def carve_def U_MEM_next_mem_update realign_aligned)
qed


lemma carve_served:
  assumes ok: "chunk_ok c"
    and pos: "0 < unat sz"
    and fits: "unat (next_mem c) + unat sz \<le> unat (U_MEM c) + unat (mem_size c)"
  shows "aligned (snd (carve c sz))"
    and "U_MEM (fst (carve c sz)) \<le> snd (carve c sz) \<and>
         snd (carve c sz) < next_mem (fst (carve c sz))"
    and "in_chunk (fst (carve c sz)) (snd (carve c sz)) sz"
proof -
  note c = carve_ok [OF ok pos fits]
  show "aligned (snd (carve c sz))"
    using ok by (simp add: c(2) chunk_ok_def)
  have u: "U_MEM c \<le> next_mem c" using ok by (simp add: chunk_ok_def)
  show "U_MEM (fst (carve c sz)) \<le> snd (carve c sz) \<and>
         snd (carve c sz) < next_mem (fst (carve c sz))"
    using u c(5) by (simp add: c(2) c(3))
  show "in_chunk (fst (carve c sz)) (snd (carve c sz)) sz"
    using u fits by (simp add: in_chunk_def c(2) c(3) c(4) word_le_nat_alt)
qed

lemma carve_first_bound:
  assumes ok: "chunk_ok c"
    and pos: "0 < unat sz"
    and fits: "unat (next_mem c) + unat sz \<le> unat (U_MEM c) + unat (mem_size c)"
    and full: "mem_size c = CHUNK_SIZE - CHUNK_HEADER_SIZE"
  shows "next_mem (fst (carve c sz)) \<le> U_MEM (fst (carve c sz)) + mem_size (fst (carve c sz))"
proof -
  note c = carve_ok [OF ok pos fits]
  note k = chunk_ok_unat [OF ok]
  have "aligned (chunk_addr c)" using ok by (simp add: chunk_ok_def)
  then have "unat (chunk_addr c) mod 8 = 0" by (simp add: aligned_iff)
  moreover have "unat (mem_size c) = 4072"
    by (simp add: full CHUNK_SIZE_def CHUNK_HEADER_SIZE_def)
  ultimately have "(unat (U_MEM c) + unat (mem_size c)) mod 8 = 0"
    by (simp add: k(1)) presburger
  with fits have "((unat (next_mem c) + unat sz + 7) div 8) * 8 \<le> unat (U_MEM c) + unat (mem_size c)"
    by (rule roundup_le_aligned)
  then show ?thesis
    by (simp add: word_le_nat_alt c(3) c(4) c(6) k(2))
qed


lemma memarea_ok_Cons:
  "memarea_ok (c # cs) =
     (chunk_ok c \<and> list_all chunk_ok cs \<and> mem_size c = CHUNK_SIZE - CHUNK_HEADER_SIZE \<and>
      next_mem c \<le> U_MEM c + mem_size c)"
  by (auto simp add: memarea_ok_def)

lemma memarea_okD:
  assumes "memarea_ok (c # cs)"
  shows "chunk_ok c" and "list_all chunk_ok cs"
    and "mem_size c = CHUNK_SIZE - CHUNK_HEADER_SIZE"
    and "next_mem c \<le> U_MEM c + mem_size c"
  using assms by (auto simp add: memarea_ok_def)

lemma memarea_okI:
  assumes "chunk_ok c" and "list_all chunk_ok cs"
    and "mem_size c = CHUNK_SIZE - CHUNK_HEADER_SIZE"
    and "next_mem c \<le> U_MEM c + mem_size c"
  shows "memarea_ok (c # cs)"
  using assms by (auto simp add: memarea_ok_def)

lemma served_here:
  assumes "chunk_ok c" "0 < unat n"
    and "unat (next_mem c) + unat n \<le> unat (U_MEM c) + unat (mem_size c)"
    and "mem_size c = CHUNK_SIZE - CHUNK_HEADER_SIZE"
    and "list_all chunk_ok cs"
  shows "served (fst (carve c n) # cs) (snd (carve c n)) n"
proof -
  note s = carve_served [OF assms(1-3)]
  note c = carve_ok [OF assms(1-3)]
  have "memarea_ok (fst (carve c n) # cs)"
    using c(1) assms(5) _ carve_first_bound [OF assms(1-4)]
    by (rule memarea_okI) (simp add: c(4) assms(4))
  moreover have "memarea_owns_ptr (fst (carve c n) # cs) (snd (carve c n))"
    using s(2) by simp
  moreover have "list_ex (\<lambda>x. in_chunk x (snd (carve c n)) n) (fst (carve c n) # cs)"
    using s(3) by simp
  ultimately show ?thesis
    using s(1) by (simp only: served_def simp_thms)
qed

lemma served_second:
  assumes "chunk_ok c" "0 < unat n"
    and "unat (next_mem c) + unat n \<le> unat (U_MEM c) + unat (mem_size c)"
    and "memarea_ok (f # cs)"
  shows "served (f # fst (carve c n) # cs) (snd (carve c n)) n"
proof -
  note s = carve_served [OF assms(1-3)]
  note c = carve_ok [OF assms(1-3)]
  have "memarea_ok (f # fst (carve c n) # cs)"
    using memarea_okD [OF assms(4)] c(1) by (intro memarea_okI) simp_all
  moreover have "memarea_owns_ptr (f # fst (carve c n) # cs) (snd (carve c n))"
    using s(2) by simp
  moreover have "list_ex (\<lambda>x. in_chunk x (snd (carve c n)) n) (f # fst (carve c n) # cs)"
    using s(3) by simp
  ultimately show ?thesis
    using s(1) by (simp only: served_def simp_thms)
qed

lemma memarea_alloc_served:
  assumes ok: "memarea_ok area"
    and small: "unat sz + unat CHUNK_SIZE < unat size_ceiling"
    and al: "aligned base"
    and room: "unat base + unat sz + 4200 \<le> 18446744073709551616"
  shows "\<exists>area' p. memarea_alloc size_ceiling area sz base = Inr (area', p) \<and>
           served area' p (if sz = 0 then 1 else sz)"
proof -
  obtain chunk rest where area: "area = chunk # rest"
    using ok by (cases area) (simp_all add: memarea_ok_def)
  define n where "n = (if sz = 0 then 1 else sz)"
  have okc: "chunk_ok chunk" and okr: "list_all chunk_ok rest"
    and full: "mem_size chunk = CHUNK_SIZE - CHUNK_HEADER_SIZE"
    and bound: "next_mem chunk \<le> U_MEM chunk + mem_size chunk"
    using ok memarea_okD [of chunk rest] by (simp_all add: area)
  have sent: "sentinel chunk = SENTINEL_VAL" using okc by (simp add: chunk_ok_def)
  have lt: "sz < size_ceiling" using small by (simp add: word_less_nat_alt)
  have npos: "0 < unat n" by (simp add: n_def unat_gt_0)
  have nle: "unat n \<le> unat sz + 1" by (simp add: n_def)
  note k = chunk_ok_unat [OF okc]
  have sp: "unat (U_MEM chunk + mem_size chunk - next_mem chunk) =
            unat (U_MEM chunk) + unat (mem_size chunk) - unat (next_mem chunk)"
    using bound by (simp add: unat_sub k(2))
  have ble: "unat (next_mem chunk) \<le> unat (U_MEM chunk) + unat (mem_size chunk)"
    using bound by (simp add: word_le_nat_alt k(2))
  show ?thesis
  proof (cases "n > U_MEM chunk + mem_size chunk - next_mem chunk")
    case False
    then have fits: "unat (next_mem chunk) + unat n \<le> unat (U_MEM chunk) + unat (mem_size chunk)"
      using ble by (simp add: word_less_nat_alt sp)
    have "memarea_alloc size_ceiling area sz base = Inr (fst (carve chunk n) # rest, snd (carve chunk n))"
      using False sent lt bound
      by (simp add: memarea_alloc_def area Let_def split_beta flip: n_def)
    then show ?thesis
      using served_here [OF okc npos fits full okr] by (simp flip: n_def)
  next
    case True
    have n24: "unat (n + CHUNK_HEADER_SIZE) = unat n + 24"
      using nle room unat_add_nowrap [of n CHUNK_HEADER_SIZE]
      by (simp add: CHUNK_HEADER_SIZE_def)
    show ?thesis
    proof (cases "n + CHUNK_HEADER_SIZE \<ge> CHUNK_SIZE")
      case big: True
      have "n + CHUNK_HEADER_SIZE < size_ceiling"
        using small nle by (simp add: word_less_nat_alt n24 CHUNK_SIZE_def)
      moreover have "unat base + max 4096 (unat (n + CHUNK_HEADER_SIZE)) + 8 \<le> 18446744073709551616"
        using room nle by (simp add: n24)
      ultimately obtain c where c: "alloc_chunk size_ceiling (n + CHUNK_HEADER_SIZE) base = Inr c"
        "chunk_ok c" "next_mem c = U_MEM c"
        "unat (mem_size c) = max 4096 (unat (n + CHUNK_HEADER_SIZE)) - 24"
        using alloc_chunk_ok [of "n + CHUNK_HEADER_SIZE" size_ceiling base] al by blast
      have ms: "unat n \<le> unat (mem_size c)"
        by (simp add: c(4) n24)
      then have fits: "unat (next_mem c) + unat n \<le> unat (U_MEM c) + unat (mem_size c)"
        by (simp add: c(3))
      have "memarea_alloc size_ceiling area sz base =
              Inr (chunk # fst (carve c n) # rest, snd (carve c n))"
        using True big sent lt bound c(1) ms
        by (simp add: memarea_alloc_def area Let_def split_beta word_le_nat_alt flip: n_def)
      then show ?thesis
        using served_second [OF c(2) npos fits, of chunk rest] ok
        by (simp add: area flip: n_def)
    next
      case little: False
      then have n4096: "unat n + 24 < 4096"
        by (simp add: word_le_nat_alt n24 CHUNK_SIZE_def)
      have "CHUNK_SIZE < size_ceiling"
        using small by (simp add: word_less_nat_alt)
      moreover have "unat base + max 4096 (unat CHUNK_SIZE) + 8 \<le> 18446744073709551616"
        using room by (simp add: CHUNK_SIZE_def)
      ultimately obtain c where c: "alloc_chunk size_ceiling CHUNK_SIZE base = Inr c"
        "chunk_ok c" "next_mem c = U_MEM c"
        "unat (mem_size c) = max 4096 (unat CHUNK_SIZE) - 24"
        using alloc_chunk_ok [of CHUNK_SIZE size_ceiling base] al by blast
      have m: "unat (mem_size c) = 4072"
        by (simp add: c(4) CHUNK_SIZE_def)
      then have full': "mem_size c = CHUNK_SIZE - CHUNK_HEADER_SIZE"
        by (simp add: word_unat_eq_iff CHUNK_SIZE_def CHUNK_HEADER_SIZE_def)
      have ms: "unat n \<le> unat (mem_size c)"
        using n4096 by (simp add: m)
      then have fits: "unat (next_mem c) + unat n \<le> unat (U_MEM c) + unat (mem_size c)"
        by (simp add: c(3))
      have "list_all chunk_ok (chunk # rest)"
        using okc okr by simp
      note sv = served_here [OF c(2) npos fits full' this]
      have "memarea_alloc size_ceiling area sz base =
              Inr (fst (carve c n) # chunk # rest, snd (carve c n))"
        using True little sent lt bound c(1) ms
        by (simp add: memarea_alloc_def area Let_def split_beta word_le_nat_alt flip: n_def)
      then show ?thesis
        using sv by (simp flip: n_def)
    qed
  qed
qed


lemma memarea_new_ok:
  assumes "CHUNK_SIZE < size_ceiling" and "aligned base"
    and "unat base + 4104 \<le> 18446744073709551616"
  shows "\<exists>area. memarea_new size_ceiling base = Inr area \<and> memarea_ok area"
proof -
  have "unat base + max 4096 (unat CHUNK_SIZE) + 8 \<le> 18446744073709551616"
    using assms(3) by (simp add: CHUNK_SIZE_def)
  then obtain c where c: "alloc_chunk size_ceiling CHUNK_SIZE base = Inr c"
    "chunk_ok c" "next_mem c = U_MEM c"
    "unat (mem_size c) = max 4096 (unat CHUNK_SIZE) - 24"
    using alloc_chunk_ok [of CHUNK_SIZE size_ceiling base] assms(1,2) by blast
  have "unat (mem_size c) = 4072"
    by (simp add: c(4) CHUNK_SIZE_def)
  then have full: "mem_size c = CHUNK_SIZE - CHUNK_HEADER_SIZE"
    by (simp add: word_unat_eq_iff CHUNK_SIZE_def CHUNK_HEADER_SIZE_def)
  have "next_mem c \<le> U_MEM c + mem_size c"
    using chunk_ok_unat(2) [OF c(2)] by (simp add: c(3) word_le_nat_alt)
  with c(2) full have "memarea_ok [c]"
    by (intro memarea_okI) simp_all
  then show ?thesis
    by (simp add: memarea_new_def c(1))
qed

lemma aligned_U_MEM:
  assumes "chunk_ok c"
  shows "aligned (U_MEM c)"
proof -
  have "aligned (chunk_addr c)" using assms by (simp add: chunk_ok_def)
  then have "unat (chunk_addr c) mod 8 = 0" by (simp add: aligned_iff)
  then have "(unat (chunk_addr c) + 24) mod 8 = 0" by presburger
  then show ?thesis
    by (simp add: aligned_iff chunk_ok_unat(1) [OF assms])
qed


subsection \<open>Allocation\<close>

lemma memarea_alloc_zero_as_one:
  assumes "1 < size_ceiling"
  shows "memarea_alloc size_ceiling area 0 base = memarea_alloc size_ceiling area 1 base"
proof -
  have "0 < size_ceiling" using assms by (simp add: word_less_nat_alt)
  with assms show ?thesis
    by (cases area) (simp_all add: memarea_alloc_def)
qed

text \<open>
  C10. In an area that is in order, \<^verbatim>\<open>memarea_alloc\<close> returns (it trips no assertion),
  provided the request stays \<^verbatim>\<open>CHUNK_SIZE\<close> below \<^verbatim>\<open>SIZE_T_CEILING\<close> and the block that
  \<^verbatim>\<open>tor_malloc\<close> would hand out is aligned and does not reach the top of the address
  space. The pointer it returns is aligned to \<^verbatim>\<open>MEMAREA_ALIGN\<close>, \<^verbatim>\<open>memarea_owns_ptr\<close>
  holds of it in the resulting area, the requested bytes lie inside the memory of one of
  the area's chunks, and the area is in order again. A request of zero bytes gives exactly
  what a request of one byte gives.
\<close>

theorem memarea_alloc_owned_aligned:
  assumes "memarea_ok area"
    and "unat sz + unat CHUNK_SIZE < unat size_ceiling"
    and "aligned base"
    and "unat base + unat sz + 4200 \<le> 18446744073709551616"
  shows "\<exists>area' p. memarea_alloc size_ceiling area sz base = Inr (area', p) \<and>
           aligned p \<and> memarea_owns_ptr area' p \<and>
           list_ex (\<lambda>c. in_chunk c p (if sz = 0 then 1 else sz)) area' \<and>
           memarea_ok area' \<and>
           memarea_alloc size_ceiling area 0 base = memarea_alloc size_ceiling area 1 base"
proof -
  have "1 < size_ceiling"
    using assms(2) by (simp add: word_less_nat_alt CHUNK_SIZE_def)
  then have "memarea_alloc size_ceiling area 0 base = memarea_alloc size_ceiling area 1 base"
    by (rule memarea_alloc_zero_as_one)
  with memarea_alloc_served [OF assms] show ?thesis
    by (simp only: served_def) blast
qed

theorem memarea_alloc_owned_aligned_witness:
  "memarea_ok [\<lparr>chunk_addr = 0x10000, mem_size = 4072, next_mem = 0x10018,
                 sentinel = 0x90806622\<rparr>] \<and>
   (\<exists>area' p.
      memarea_alloc 0x7FFFFFFFFFFFFFEF
        [\<lparr>chunk_addr = 0x10000, mem_size = 4072, next_mem = 0x10018,
           sentinel = 0x90806622\<rparr>] 0 0x20000 = Inr (area', p) \<and>
      aligned p \<and> memarea_owns_ptr area' p \<and> list_ex (\<lambda>c. in_chunk c p 1) area' \<and>
      memarea_ok area')"
proof -
  let ?a = "[\<lparr>chunk_addr = 0x10000, mem_size = 4072, next_mem = 0x10018,
               sentinel = 0x90806622\<rparr>] :: memarea_t"
  have ok: "memarea_ok ?a"
    by (simp add: memarea_ok_def chunk_ok_def aligned_def MEMAREA_ALIGN_MASK_def U_MEM_def
        CHUNK_HEADER_SIZE_def CHUNK_SIZE_def SENTINEL_VAL_def)
  have small: "unat (0::size_t) + unat CHUNK_SIZE < unat (0x7FFFFFFFFFFFFFEF::size_t)"
    by (simp add: CHUNK_SIZE_def)
  have al: "aligned 0x20000"
    by (simp add: aligned_def MEMAREA_ALIGN_MASK_def)
  have room: "unat (0x20000::addr) + unat (0::size_t) + 4200 \<le> 18446744073709551616"
    by simp
  show ?thesis
    using ok memarea_alloc_owned_aligned [OF ok small al room] by auto
qed

subsection \<open>Clearing and reuse\<close>

lemma free_chunks_ok:
  "list_all chunk_ok cs \<Longrightarrow> free_chunks cs = Inr (map chunk_addr cs)"
  by (induction cs) (simp_all add: memarea_chunk_free_unchecked_def chunk_ok_def)

lemma owns_empty_chunk: "\<not> memarea_owns_ptr [c\<lparr>next_mem := U_MEM c\<rparr>] p"
  by (auto simp add: U_MEM_next_mem_update)

text \<open>
  C7. For an area that is in order, \<^verbatim>\<open>memarea_clear\<close> frees every chunk but the first
  (the freed addresses are those of the other chunks, in link order) and sets the first
  chunk's \<open>next_mem\<close> back to \<^verbatim>\<open>U_MEM\<close>. The area is then in order, and
  \<^verbatim>\<open>memarea_owns_ptr\<close> holds of no pointer: every earlier allocation is forgotten. A
  following \<^verbatim>\<open>memarea_alloc\<close> whose size (one for a request of zero) is at most the first
  chunk's \<open>mem_size\<close> returns \<^verbatim>\<open>U_MEM\<close> of that chunk and leaves the area with that one
  chunk, whatever \<^verbatim>\<open>tor_malloc\<close> would have returned: no chunk is allocated.
\<close>

theorem memarea_clear_reuses_first_chunk:
  assumes ok: "memarea_ok (first # rest)"
    and lt: "sz < size_ceiling"
    and fit: "unat (if sz = 0 then 1 else sz) \<le> unat (mem_size first)"
  shows "memarea_clear (first # rest) =
           Inr ([first\<lparr>next_mem := U_MEM first\<rparr>], map chunk_addr rest) \<and>
         memarea_ok [first\<lparr>next_mem := U_MEM first\<rparr>] \<and>
         (\<forall>p. \<not> memarea_owns_ptr [first\<lparr>next_mem := U_MEM first\<rparr>] p) \<and>
         (\<forall>base. memarea_alloc size_ceiling [first\<lparr>next_mem := U_MEM first\<rparr>] sz base =
            Inr ([first\<lparr>next_mem :=
                    realign_pointer (U_MEM first + (if sz = 0 then 1 else sz))\<rparr>],
                 U_MEM first))"
proof -
  define n where "n = (if sz = 0 then 1 else sz)"
  define c0 where "c0 = first\<lparr>next_mem := U_MEM first\<rparr>"
  note d = memarea_okD [OF ok]
  note k = chunk_ok_unat [OF d(1)]
  have clear: "memarea_clear (first # rest) = Inr ([c0], map chunk_addr rest)"
    by (simp add: memarea_clear_def free_chunks_ok [OF d(2)] c0_def)
  have u0: "U_MEM c0 = U_MEM first" by (simp add: c0_def U_MEM_next_mem_update)
  have le: "U_MEM first \<le> U_MEM first + mem_size first"
    by (simp add: word_le_nat_alt k(2))
  have ok0: "chunk_ok c0"
    using d(1) aligned_U_MEM [OF d(1)]
    by (simp add: chunk_ok_def c0_def U_MEM_next_mem_update)
  have mok: "memarea_ok [c0]"
    using ok0 d(3) le by (intro memarea_okI) (simp_all add: c0_def U_MEM_next_mem_update)
  have sp: "unat (U_MEM first + mem_size first - U_MEM first) = unat (mem_size first)"
    by simp
  have nfit: "\<not> n > U_MEM c0 + mem_size c0 - next_mem c0"
    using fit by (simp add: c0_def U_MEM_next_mem_update word_less_nat_alt flip: n_def)
  have sent: "sentinel c0 = SENTINEL_VAL"
    using ok0 by (simp add: chunk_ok_def)
  have bound: "next_mem c0 \<le> U_MEM c0 + mem_size c0"
    using le by (simp add: c0_def U_MEM_next_mem_update)
  have alloc: "memarea_alloc size_ceiling [c0] sz base =
      Inr ([first\<lparr>next_mem := realign_pointer (U_MEM first + n)\<rparr>], U_MEM first)" for base
    using nfit sent lt bound
    by (simp add: memarea_alloc_def Let_def split_beta carve_def flip: n_def) (simp add: c0_def)
  show ?thesis
    using clear mok alloc owns_empty_chunk [of first]
    by (simp add: c0_def flip: n_def)
qed


theorem memarea_clear_reuses_first_chunk_witness:
  "memarea_ok [\<lparr>chunk_addr = 0x10000, mem_size = 4072, next_mem = 0x10040,
                 sentinel = 0x90806622\<rparr>,
               \<lparr>chunk_addr = 0x30000, mem_size = 5000, next_mem = 0x313A0,
                 sentinel = 0x90806622\<rparr>] \<and>
   memarea_clear [\<lparr>chunk_addr = 0x10000, mem_size = 4072, next_mem = 0x10040,
                    sentinel = 0x90806622\<rparr>,
                  \<lparr>chunk_addr = 0x30000, mem_size = 5000, next_mem = 0x313A0,
                    sentinel = 0x90806622\<rparr>] =
     Inr ([\<lparr>chunk_addr = 0x10000, mem_size = 4072, next_mem = 0x10018,
             sentinel = 0x90806622\<rparr>], [0x30000]) \<and>
   (\<forall>base. memarea_alloc 0x7FFFFFFFFFFFFFEF
              [\<lparr>chunk_addr = 0x10000, mem_size = 4072, next_mem = 0x10018,
                 sentinel = 0x90806622\<rparr>] 100 base =
            Inr ([\<lparr>chunk_addr = 0x10000, mem_size = 4072, next_mem = 0x10080,
                    sentinel = 0x90806622\<rparr>], 0x10018))"
proof -
  let ?f = "\<lparr>chunk_addr = 0x10000, mem_size = 4072, next_mem = 0x10040,
              sentinel = 0x90806622\<rparr> :: memarea_chunk_t"
  let ?r = "[\<lparr>chunk_addr = 0x30000, mem_size = 5000, next_mem = 0x313A0,
               sentinel = 0x90806622\<rparr>] :: memarea_t"
  have ok: "memarea_ok (?f # ?r)"
    by (simp add: memarea_ok_def chunk_ok_def aligned_def MEMAREA_ALIGN_MASK_def U_MEM_def
        CHUNK_HEADER_SIZE_def CHUNK_SIZE_def SENTINEL_VAL_def)
  have lt: "(100::size_t) < 0x7FFFFFFFFFFFFFEF" by simp
  have fit: "unat (if (100::size_t) = 0 then 1 else (100::size_t)) \<le> unat (mem_size ?f)" by simp
  show ?thesis
    using ok memarea_clear_reuses_first_chunk [OF ok lt fit]
    by (simp add: U_MEM_def CHUNK_HEADER_SIZE_def realign_pointer_def MEMAREA_ALIGN_MASK_def)
qed
section \<open>The build-time history\<close>

text \<open>
  A history is in order when the array has \<^verbatim>\<open>CBT_NCIRCUITS_TO_OBSERVE\<close> elements, the
  index is inside it and the count is between zero and the size.
\<close>

lemma add_time_rejected:
  "btime \<le> 0 \<or> btime > CBT_BUILD_TIME_MAX k \<Longrightarrow>
   circuit_build_times_add_time k cbt btime = Inr (cbt, -1)"
  by (simp add: circuit_build_times_add_time_def)

lemma add_time_accepted:
  assumes "\<not> (btime \<le> 0 \<or> btime > CBT_BUILD_TIME_MAX k)"
    and "0 \<le> build_times_idx cbt"
    and "build_times_idx cbt < int (length (circuit_build_times cbt))"
  shows "circuit_build_times_add_time k cbt btime =
           Inr (cbt\<lparr> circuit_build_times :=
                       (circuit_build_times cbt)[nat (build_times_idx cbt) := btime],
                     build_times_idx :=
                       (build_times_idx cbt + 1) mod int (CBT_NCIRCUITS_TO_OBSERVE k),
                     total_build_times :=
                       (if total_build_times cbt < int (CBT_NCIRCUITS_TO_OBSERVE k)
                        then total_build_times cbt + 1 else total_build_times cbt) \<rparr>, 0)"
  using assms by (simp add: circuit_build_times_add_time_def Let_def)

text \<open>
  C9. A sample that is zero (\<^verbatim>\<open>btime <= 0\<close> on an unsigned value) or above
  \<^verbatim>\<open>CBT_BUILD_TIME_MAX\<close> is rejected: the call returns -1 and the state it returns is the
  state it was given. Any other sample, in a state whose index is inside the array, makes
  the call return 0 with the sample stored at the index, every other element as before,
  the index advanced by one modulo \<^verbatim>\<open>CBT_NCIRCUITS_TO_OBSERVE\<close> and the count raised by
  one unless it had reached that number.
\<close>

theorem add_time_range_check:
  assumes "0 \<le> build_times_idx cbt"
    and "build_times_idx cbt < int (length (circuit_build_times cbt))"
  shows "if btime \<le> 0 \<or> btime > CBT_BUILD_TIME_MAX k
         then circuit_build_times_add_time k cbt btime = Inr (cbt, -1)
         else \<exists>cbt'. circuit_build_times_add_time k cbt btime = Inr (cbt', 0) \<and>
                length (circuit_build_times cbt') = length (circuit_build_times cbt) \<and>
                circuit_build_times cbt' ! nat (build_times_idx cbt) = btime \<and>
                (\<forall>i. i \<noteq> nat (build_times_idx cbt) \<longrightarrow>
                       circuit_build_times cbt' ! i = circuit_build_times cbt ! i) \<and>
                build_times_idx cbt' =
                  (build_times_idx cbt + 1) mod int (CBT_NCIRCUITS_TO_OBSERVE k) \<and>
                total_build_times cbt' =
                  (if total_build_times cbt < int (CBT_NCIRCUITS_TO_OBSERVE k)
                   then total_build_times cbt + 1 else total_build_times cbt)"
proof (cases "btime \<le> 0 \<or> btime > CBT_BUILD_TIME_MAX k")
  case True
  then show ?thesis by (simp add: add_time_rejected)
next
  case False
  have "nat (build_times_idx cbt) < length (circuit_build_times cbt)"
    using assms by simp
  then show ?thesis
    using False by (simp add: add_time_accepted [OF False assms])
qed

lemma replicate_4: "replicate 4 x = [x, x, x, x]"
  by (simp add: eval_nat_numeral)

theorem add_time_range_check_witness:
  "(0 \<le> build_times_idx (circuit_build_times_init small_constants learning_env) \<and>
    build_times_idx (circuit_build_times_init small_constants learning_env)
      < int (length (circuit_build_times (circuit_build_times_init small_constants learning_env))))
   \<and> circuit_build_times_add_time small_constants
         (circuit_build_times_init small_constants learning_env) 0
       = Inr (circuit_build_times_init small_constants learning_env, -1)
   \<and> (\<exists>cbt'. circuit_build_times_add_time small_constants
                 (circuit_build_times_init small_constants learning_env) 350 = Inr (cbt', 0) \<and>
               circuit_build_times cbt' = [350, 0, 0, 0] \<and> build_times_idx cbt' = 1 \<and>
               total_build_times cbt' = 1)"
proof -
  let ?c = "circuit_build_times_init small_constants learning_env"
  have h1: "0 \<le> build_times_idx ?c"
    by (simp add: circuit_build_times_init_def)
  have h2: "build_times_idx ?c < int (length (circuit_build_times ?c))"
    by (simp add: circuit_build_times_init_def small_constants_def)
  have a: "circuit_build_times_add_time small_constants ?c 0 = Inr (?c, -1)"
    using add_time_range_check [OF h1 h2, of 0 small_constants] by simp
  have b: "\<exists>cbt'. circuit_build_times_add_time small_constants ?c 350 = Inr (cbt', 0) \<and>
               circuit_build_times cbt' = [350, 0, 0, 0] \<and> build_times_idx cbt' = 1 \<and>
               total_build_times cbt' = 1"
    using add_time_range_check [OF h1 h2, of 350 small_constants]
    by (simp add: circuit_build_times_add_time_def circuit_build_times_init_def
        small_constants_def replicate_4)
  show ?thesis using h1 h2 a b by blast
qed

lemma store_times_snoc:
  "store_times k cbt (xs @ [x]) =
     (case store_times k cbt xs of
        Inl e \<Rightarrow> Inl e
      | Inr c \<Rightarrow>
          (case circuit_build_times_add_time k c x of
             Inl e \<Rightarrow> Inl e
           | Inr (c', r) \<Rightarrow> Inr c'))"
  by (induction xs arbitrary: cbt) (auto split: sum.splits)

lemma mod_distinct_in_window:
  assumes "j < n" and "n < j + N"
  shows "j mod N \<noteq> n mod (N::nat)"
proof
  assume "j mod N = n mod N"
  then have "n mod N = j mod N" by simp
  moreover have "j \<le> n" using assms(1) by simp
  ultimately have "N dvd n - j"
    by (simp add: mod_eq_dvd_iff_nat)
  moreover have "0 < n - j" and "n - j < N"
    using assms by simp_all
  ultimately show False
    using nat_dvd_not_less by blast
qed

lemma holds_window_step:
  assumes N: "0 < CBT_NCIRCUITS_TO_OBSERVE k"
    and w: "holds_window k xs cbt"
    and x: "0 < x" "x \<le> CBT_BUILD_TIME_MAX k"
  shows "\<exists>cbt'. circuit_build_times_add_time k cbt x = Inr (cbt', 0) \<and>
           holds_window k (xs @ [x]) cbt'"
proof -
  define N where "N = CBT_NCIRCUITS_TO_OBSERVE k"
  define n where "n = length xs"
  have Npos: "0 < N" using N by (simp add: N_def)
  have len: "length (circuit_build_times cbt) = N"
    and idx: "build_times_idx cbt = int (n mod N)"
    and tot: "total_build_times cbt = int (min n N)"
    and win: "\<And>j. j < n \<Longrightarrow> n \<le> j + N \<Longrightarrow> circuit_build_times cbt ! (j mod N) = xs ! j"
    and zer: "\<And>i. i < N \<Longrightarrow> n \<le> i \<Longrightarrow> circuit_build_times cbt ! i = 0"
    using w by (simp_all add: holds_window_def N_def n_def)
  have inb: "n mod N < N" using Npos by simp
  have acc: "\<not> (x \<le> 0 \<or> x > CBT_BUILD_TIME_MAX k)"
    using x by (simp add: word_le_nat_alt word_less_nat_alt)
  define cbt' where "cbt' = cbt\<lparr> circuit_build_times :=
                       (circuit_build_times cbt)[nat (build_times_idx cbt) := x],
                     build_times_idx :=
                       (build_times_idx cbt + 1) mod int (CBT_NCIRCUITS_TO_OBSERVE k),
                     total_build_times :=
                       (if total_build_times cbt < int (CBT_NCIRCUITS_TO_OBSERVE k)
                        then total_build_times cbt + 1 else total_build_times cbt) \<rparr>"
  have "circuit_build_times_add_time k cbt x = Inr (cbt', 0)"
    unfolding cbt'_def using inb
    by (intro add_time_accepted [OF acc]) (simp_all add: idx len)
  moreover have "length (circuit_build_times cbt') = N"
    by (simp add: cbt'_def len)
  moreover have "build_times_idx cbt' = int (length (xs @ [x]) mod N)"
  proof -
    have "(int (n mod N) + 1) mod int N = int (Suc (n mod N) mod N)"
      by (simp add: zmod_int add.commute)
    also have "\<dots> = int (Suc n mod N)"
      by (simp only: mod_Suc_eq)
    finally show ?thesis
      by (simp add: cbt'_def idx N_def [symmetric] n_def [symmetric])
  qed
  moreover have "total_build_times cbt' = int (min (length (xs @ [x])) N)"
    by (simp add: cbt'_def tot N_def [symmetric] n_def [symmetric] min_def)
  moreover have "circuit_build_times cbt' ! (j mod N) = (xs @ [x]) ! j"
    if "j < length (xs @ [x])" "length (xs @ [x]) \<le> j + N" for j
  proof (cases "j = n")
    case True
    then show ?thesis
      using inb by (simp add: cbt'_def idx len n_def)
  next
    case False
    then have jn: "j < n" using that(1) by (simp add: n_def)
    have "n < j + N" using that(2) by (simp add: n_def)
    with jn have "j mod N \<noteq> n mod N" by (rule mod_distinct_in_window)
    moreover have "n \<le> j + N" using that(2) by (simp add: n_def)
    ultimately show ?thesis
      using win [OF jn] jn by (simp add: cbt'_def idx nth_append n_def)
  qed
  moreover have "circuit_build_times cbt' ! i = 0"
    if "i < N" "length (xs @ [x]) \<le> i" for i
  proof -
    have "n mod N \<le> n" by simp
    moreover have "n < i" using that(2) by (simp add: n_def)
    ultimately have "i \<noteq> n mod N" by linarith
    moreover have "n \<le> i" using that(2) by (simp add: n_def)
    ultimately show ?thesis
      using zer [OF that(1)] by (simp add: cbt'_def idx)
  qed
  ultimately show ?thesis
    by (auto simp add: holds_window_def N_def [symmetric])
qed

lemma store_times_window:
  assumes N: "0 < CBT_NCIRCUITS_TO_OBSERVE k"
    and acc: "\<forall>x\<in>set xs. 0 < x \<and> x \<le> CBT_BUILD_TIME_MAX k"
    and w0: "holds_window k [] cbt0"
  shows "\<exists>cbt. store_times k cbt0 xs = Inr cbt \<and> holds_window k xs cbt"
  using acc
proof (induction xs rule: rev_induct)
  case Nil
  then show ?case using w0 by simp
next
  case (snoc x xs)
  then obtain cbt where c: "store_times k cbt0 xs = Inr cbt" "holds_window k xs cbt"
    by auto
  have "0 < x" "x \<le> CBT_BUILD_TIME_MAX k" using snoc.prems by simp_all
  from holds_window_step [OF N c(2) this]
  obtain cbt' where "circuit_build_times_add_time k cbt x = Inr (cbt', 0)"
    "holds_window k (xs @ [x]) cbt'" by blast
  then show ?case
    by (simp add: store_times_snoc c(1))
qed

lemma holds_window_empty:
  assumes "circuit_build_times cbt = replicate (CBT_NCIRCUITS_TO_OBSERVE k) 0"
    and "build_times_idx cbt = 0" and "total_build_times cbt = 0"
  shows "holds_window k [] cbt"
  using assms by (simp add: holds_window_def)

text \<open>
  C4. Start from an empty history (the state after \<^verbatim>\<open>circuit_build_times_init\<close> or
  \<^verbatim>\<open>circuit_build_times_reset\<close>) and add the samples \<open>xs\<close>, each of them in the accepted
  range, one call of \<^verbatim>\<open>circuit_build_times_add_time\<close> after the other. Every call
  succeeds. Afterwards the array still has \<^verbatim>\<open>CBT_NCIRCUITS_TO_OBSERVE\<close> slots,
  \<^verbatim>\<open>build_times_idx\<close> is the number of samples modulo that size (so it is inside the
  array), \<^verbatim>\<open>total_build_times\<close> is the number of samples capped at the size, and the
  array holds exactly the last \<^verbatim>\<open>CBT_NCIRCUITS_TO_OBSERVE\<close> samples, sample number \<open>j\<close> in
  slot \<open>j mod CBT_NCIRCUITS_TO_OBSERVE\<close>, the other slots being zero. Hence, once the
  window is full, the slot the next sample goes to is the one of the oldest sample kept.
\<close>

theorem history_is_rolling:
  assumes "0 < CBT_NCIRCUITS_TO_OBSERVE k"
    and "\<forall>x\<in>set xs. 0 < x \<and> x \<le> CBT_BUILD_TIME_MAX k"
    and "circuit_build_times cbt0 = replicate (CBT_NCIRCUITS_TO_OBSERVE k) 0"
    and "build_times_idx cbt0 = 0" and "total_build_times cbt0 = 0"
  shows "\<exists>cbt. store_times k cbt0 xs = Inr cbt \<and>
           length (circuit_build_times cbt) = CBT_NCIRCUITS_TO_OBSERVE k \<and>
           0 \<le> build_times_idx cbt \<and>
           build_times_idx cbt < int (CBT_NCIRCUITS_TO_OBSERVE k) \<and>
           build_times_idx cbt = int (length xs mod CBT_NCIRCUITS_TO_OBSERVE k) \<and>
           total_build_times cbt \<le> int (CBT_NCIRCUITS_TO_OBSERVE k) \<and>
           total_build_times cbt = int (min (length xs) (CBT_NCIRCUITS_TO_OBSERVE k)) \<and>
           (\<forall>j<length xs. length xs \<le> j + CBT_NCIRCUITS_TO_OBSERVE k \<longrightarrow>
              circuit_build_times cbt ! (j mod CBT_NCIRCUITS_TO_OBSERVE k) = xs ! j) \<and>
           (\<forall>i<CBT_NCIRCUITS_TO_OBSERVE k. length xs \<le> i \<longrightarrow>
              circuit_build_times cbt ! i = 0) \<and>
           (CBT_NCIRCUITS_TO_OBSERVE k \<le> length xs \<longrightarrow>
              circuit_build_times cbt ! nat (build_times_idx cbt)
                = xs ! (length xs - CBT_NCIRCUITS_TO_OBSERVE k))"
proof -
  define N where "N = CBT_NCIRCUITS_TO_OBSERVE k"
  have Npos: "0 < N" using assms(1) by (simp add: N_def)
  obtain cbt where c: "store_times k cbt0 xs = Inr cbt" "holds_window k xs cbt"
    using store_times_window [OF assms(1,2) holds_window_empty [OF assms(3-5)]] by blast
  have idx: "build_times_idx cbt = int (length xs mod N)"
    using c(2) by (simp add: holds_window_def N_def)
  have old: "circuit_build_times cbt ! nat (build_times_idx cbt) = xs ! (length xs - N)"
    if full: "N \<le> length xs"
  proof -
    have "(length xs - N) mod N = length xs mod N"
      using full by (simp add: le_mod_geq [symmetric])
    moreover have "length xs - N < length xs" using Npos full by simp
    moreover have "length xs \<le> (length xs - N) + N" using full by simp
    ultimately show ?thesis
      using c(2) by (auto simp add: holds_window_def N_def idx)
  qed
  have "length xs mod N < N" using Npos by simp
  then show ?thesis
    using c old idx by (simp add: holds_window_def N_def [symmetric])
qed

theorem history_is_rolling_witness:
  "(\<exists>cbt. store_times small_constants (circuit_build_times_init small_constants learning_env)
            [100, 200, 300, 400, 500, 600] = Inr cbt \<and>
          circuit_build_times cbt = [500, 600, 300, 400] \<and>
          build_times_idx cbt = 2 \<and> total_build_times cbt = 4)"
proof -
  let ?c = "circuit_build_times_init small_constants learning_env"
  let ?xs = "[100, 200, 300, 400, 500, 600] :: build_time_t list"
  have 1: "0 < CBT_NCIRCUITS_TO_OBSERVE small_constants"
    by (simp add: small_constants_def)
  have 2: "\<forall>x\<in>set ?xs. 0 < x \<and> x \<le> CBT_BUILD_TIME_MAX small_constants"
    by (simp add: small_constants_def)
  have 3: "circuit_build_times ?c = replicate (CBT_NCIRCUITS_TO_OBSERVE small_constants) 0"
    by (simp add: circuit_build_times_init_def)
  have 4: "build_times_idx ?c = 0" and 5: "total_build_times ?c = 0"
    by (simp_all add: circuit_build_times_init_def)
  from history_is_rolling [OF 1 2 3 4 5]
  obtain cbt where c: "store_times small_constants ?c ?xs = Inr cbt" by blast
  have "store_times small_constants ?c ?xs =
          Inr (?c\<lparr> circuit_build_times := [500, 600, 300, 400], build_times_idx := 2,
                    total_build_times := 4 \<rparr>)"
    by (simp add: circuit_build_times_add_time_def circuit_build_times_init_def
        small_constants_def replicate_4)
  with c show ?thesis by simp
qed

section \<open>Arithmetic on doubles\<close>

lemma double_le_not_NaN: "double_le x y \<Longrightarrow> x \<noteq> NaN \<and> y \<noteq> NaN"
  by (cases x; cases y) simp_all


lemma double_le_trans: "double_le x y \<Longrightarrow> double_le y z \<Longrightarrow> double_le x z"
  by (cases x; cases y; cases z) simp_all

lemma double_less_imp_le: "double_less x y \<Longrightarrow> double_le x y"
  by (cases x; cases y) simp_all


lemma double_less_le_trans: "double_less x y \<Longrightarrow> double_le y z \<Longrightarrow> double_less x z"
  by (cases x; cases y; cases z) simp_all

lemma double_le_Finite_both:
  "double_le (Finite a) x \<Longrightarrow> double_le x (Finite b) \<Longrightarrow> \<exists>r. x = Finite r \<and> a \<le> r \<and> r \<le> b"
  by (cases x) simp_all










section \<open>The timeout\<close>







text \<open>
  A \<^verbatim>\<open>CircuitBuildTimeout\<close> of 3000000 seconds: the 32-bit product is negative, and the
  seed is the minimum timeout of 10 ms.
\<close>

lemma configured_timeout_overflows:
  "circuit_build_times_get_initial_timeout (learning_env\<lparr> CircuitBuildTimeout := 3000000 \<rparr>)
     = Finite 10 \<and>
   sint (3000000 * 1000 :: 32 word) = - 1294967296"
  by (simp add: circuit_build_times_get_initial_timeout_def
      circuit_build_times_disabled_def circuit_build_times_disabled_aux_def
      circuit_build_times_min_timeout_def double_of_int_def learning_env_def Let_def)


















section \<open>The histogram\<close>










text \<open>Summing a weight over the bins, counter by counter, is summing it over the times.\<close>

lemma sum_over_bins:
  assumes "\<forall>x\<in>set xs. P x \<longrightarrow> f x < (n::nat)"
  shows "(\<Sum>b<n. length (filter (\<lambda>x. P x \<and> f x = b) xs) * G b) =
         sum_list (map (\<lambda>x. G (f x)) (filter P xs))"
  using assms
proof (induction xs)
  case Nil
  then show ?case by simp
next
  case (Cons x xs)
  have ih: "(\<Sum>b<n. length (filter (\<lambda>x. P x \<and> f x = b) xs) * G b) =
         sum_list (map (\<lambda>x. G (f x)) (filter P xs))"
    using Cons by simp
  show ?case
  proof (cases "P x")
    case False
    then show ?thesis using ih by simp
  next
    case True
    then have fx: "f x < n" using Cons.prems by simp
    have "(\<Sum>b<n. length (filter (\<lambda>x. P x \<and> f x = b) (x # xs)) * G b) =
          (\<Sum>b<n. length (filter (\<lambda>x. P x \<and> f x = b) xs) * G b + (if b = f x then G b else 0))"
      using True by (intro sum.cong) auto
    also have "\<dots> = (\<Sum>b<n. length (filter (\<lambda>x. P x \<and> f x = b) xs) * G b)
                      + (\<Sum>b<n. if b = f x then G b else 0)"
      by (simp add: sum.distrib)
    also have "(\<Sum>b<n. if b = f x then G b else 0) = G (f x)"
      using fx by (simp add: sum.delta)
    finally show ?thesis using True ih by simp
  qed
qed



section \<open>Circuits that exceed the timeout\<close>
























end
